theory Spec2Isabelle
  imports Complex_Main "HOL-Library.Word"
begin

section \<open>The OpenGL template program as a trace of API calls\<close>

text \<open>
  The program of \<^verbatim>\<open>src/main.cpp\<close> computes nothing: everything it does is a call
  into GLFW, GLAD, OpenGL or the C++ runtime. The embedding therefore records every such
  call, in program order, in a trace, and takes every answer of the outside world (the
  window system, the driver, the keyboard) from an environment record. The functions
  below follow \<^verbatim>\<open>main\<close>, \<^verbatim>\<open>init_window\<close>,
  \<^verbatim>\<open>framebuffer_size_callback\<close>, \<^verbatim>\<open>process_input\<close> and
  \<^verbatim>\<open>get_shader_program\<close> statement by statement.
\<close>

subsection \<open>Values passed to the libraries\<close>

type_synonym GLuint = "32 word"

text \<open>A non-null \<^verbatim>\<open>GLFWwindow *\<close>; the null pointer is \<open>None\<close> where it can occur.\<close>

type_synonym window = nat

text \<open>
  A \<^verbatim>\<open>float\<close> argument is modelled by the value of its literal in the source. The
  program performs no floating-point arithmetic: the literals are only handed on.
\<close>

type_synonym gl_float = real

datatype hint =
    GLFW_CONTEXT_VERSION_MAJOR
  | GLFW_CONTEXT_VERSION_MINOR
  | GLFW_OPENGL_PROFILE
  | GLFW_OPENGL_FORWARD_COMPAT

datatype hint_value = Num int | GLFW_OPENGL_CORE_PROFILE | GL_TRUE

datatype shader_type = GL_VERTEX_SHADER | GL_FRAGMENT_SHADER

datatype shader_param = GL_COMPILE_STATUS

datatype buffer_target = GL_ARRAY_BUFFER

datatype buffer_usage = GL_STATIC_DRAW

datatype attrib_type = GL_FLOAT

datatype clear_mask = GL_COLOR_BUFFER_BIT

datatype draw_mode = GL_TRIANGLES

datatype key = GLFW_KEY_ESCAPE

datatype key_state = GLFW_RELEASE | GLFW_PRESS

text \<open>
  The calls the program issues, one constructor per library function it uses, with the
  arguments it passes. \<open>StdOut\<close> is text written to \<^verbatim>\<open>std::cout\<close>. Sizes
  and strides are in bytes. Arguments that are the same constant at every call are left
  out: the two \<^verbatim>\<open>NULL\<close>s of \<^verbatim>\<open>glfwCreateWindow\<close>, the loader passed
  to \<^verbatim>\<open>gladLoadGLLoader\<close>, the count \<open>1\<close> and the \<^verbatim>\<open>NULL\<close> lengths
  of \<^verbatim>\<open>glShaderSource\<close>, the \<^verbatim>\<open>NULL\<close> length pointer of
  \<^verbatim>\<open>glGetShaderInfoLog\<close>, the callback of
  \<^verbatim>\<open>glfwSetFramebufferSizeCallback\<close>, and the output pointers.
  \<open>GlDeleteVertexArrays\<close> and \<open>GlDeleteBuffers\<close> are always called with a count
  of one and carry the one name they pass.
\<close>

datatype call =
    GlfwInit
  | GlfwWindowHint hint hint_value
  | GlfwCreateWindow int int string
  | GlfwTerminate
  | GlfwMakeContextCurrent window
  | GladLoadGLLoader
  | GlViewport int int int int
  | GlfwSetFramebufferSizeCallback window
  | StdOut string
  | GlCreateShader shader_type
  | GlShaderSource GLuint string
  | GlCompileShader GLuint
  | GlGetShaderiv GLuint shader_param
  | GlGetShaderInfoLog GLuint nat
  | GlCreateProgram
  | GlAttachShader GLuint GLuint
  | GlLinkProgram GLuint
  | GlUseProgram GLuint
  | GlDeleteShader GLuint
  | GlGenVertexArrays nat
  | GlGenBuffers nat
  | GlBindVertexArray GLuint
  | GlBindBuffer buffer_target GLuint
  | GlBufferData buffer_target nat "gl_float list" buffer_usage
  | GlVertexAttribPointer GLuint int attrib_type bool nat nat
  | GlEnableVertexAttribArray GLuint
  | GlfwWindowShouldClose window
  | GlfwGetKey window key
  | GlfwSetWindowShouldClose window bool
  | GlClearColor gl_float gl_float gl_float gl_float
  | GlClear clear_mask
  | GlDrawArrays draw_mode int int
  | GlfwSwapBuffers window
  | GlfwPollEvents
  | GlDeleteVertexArrays GLuint
  | GlDeleteBuffers GLuint
  | GlDeleteProgram GLuint

subsection \<open>The outside world\<close>

text \<open>
  Everything the libraries answer. \<open>apple\<close> is the compile-time switch
  \<^verbatim>\<open>__APPLE__\<close>. The names are those the driver hands out. The last three
  fields are indexed by the number of \<^verbatim>\<open>glfwPollEvents\<close> calls made so far:
  the state of the escape key when the frame reads it, whether the window system asks
  for the window to be closed during the frame's event delivery, and the framebuffer
  sizes it reports then. \<open>link_status\<close> is what \<^verbatim>\<open>GL_LINK_STATUS\<close> would
  report for the linked program.
\<close>

record env =
  apple :: bool
  glfw_init_result :: int
  window_result :: "window option"
  glad_result :: int
  vertex_shader_name :: GLuint
  vertex_compile_status :: int
  vertex_info_log :: string
  fragment_shader_name :: GLuint
  fragment_compile_status :: int
  fragment_info_log :: string
  program_name :: GLuint
  link_status :: int
  vao_name :: GLuint
  vbo_name :: GLuint
  escape_key :: "nat \<Rightarrow> key_state"
  close_requested :: "nat \<Rightarrow> bool"
  resize_events :: "nat \<Rightarrow> (int \<times> int) list"

subsection \<open>Program state\<close>

text \<open>
  \<open>trace\<close> holds the calls issued so far, oldest first. \<open>close_flag\<close> is the
  window's close flag, which \<^verbatim>\<open>glfwWindowShouldClose\<close> reads. \<open>polls\<close>
  counts the calls of \<^verbatim>\<open>glfwPollEvents\<close>. \<open>array_buffer\<close> is the name
  bound to \<^verbatim>\<open>GL_ARRAY_BUFFER\<close> and \<open>buffer_data\<close> the contents of each
  buffer object that has a data store.
\<close>

record state =
  trace :: "call list"
  close_flag :: bool
  polls :: nat
  array_buffer :: GLuint
  buffer_data :: "GLuint \<Rightarrow> gl_float list option"

definition initial_state :: state where
  "initial_state =
     \<lparr>trace = [], close_flag = False, polls = 0, array_buffer = 0,
      buffer_data = (\<lambda>_. None)\<rparr>"

text \<open>
  What a call changes besides being issued: setting the close flag, binding a buffer,
  writing the data store of the bound buffer, deleting a buffer object. No other call of
  the program touches these parts of the state.
\<close>

fun effect :: "call \<Rightarrow> state \<Rightarrow> state" where
  "effect (GlfwSetWindowShouldClose w b) s = s\<lparr>close_flag := b\<rparr>"
| "effect (GlBindBuffer GL_ARRAY_BUFFER b) s = s\<lparr>array_buffer := b\<rparr>"
| "effect (GlBufferData GL_ARRAY_BUFFER n xs u) s =
     s\<lparr>buffer_data := (buffer_data s)(array_buffer s := Some xs)\<rparr>"
| "effect (GlDeleteBuffers b) s = s\<lparr>buffer_data := (buffer_data s)(b := None)\<rparr>"
| "effect c s = s"

definition emit :: "call \<Rightarrow> state \<Rightarrow> state" where
  "emit c s = effect c (s\<lparr>trace := trace s @ [c]\<rparr>)"

text \<open>A straight-line sequence of calls, issued in list order.\<close>

definition emits :: "call list \<Rightarrow> state \<Rightarrow> state" where
  "emits cs s = foldl (\<lambda>t c. emit c t) s cs"

text \<open>
  A function either returns a value or ends the process through
  \<^verbatim>\<open>std::exit\<close>: \<open>Inl (code, s)\<close> is the exit with the status passed to
  \<^verbatim>\<open>std::exit\<close>, \<open>Inr (v, s)\<close> the return of \<open>v\<close>.
\<close>

type_synonym 'a outcome = "(int \<times> state) + ('a \<times> state)"

definition endl :: string where
  "endl = [CHR 0x0A]"

subsection \<open>\<^verbatim>\<open>init_window\<close>\<close>

definition init_window :: "env \<Rightarrow> state \<Rightarrow> window outcome" where
  "init_window e s =
     (let s1 = emits ([GlfwInit,
                       GlfwWindowHint GLFW_CONTEXT_VERSION_MAJOR (Num 3),
                       GlfwWindowHint GLFW_CONTEXT_VERSION_MINOR (Num 3),
                       GlfwWindowHint GLFW_OPENGL_PROFILE GLFW_OPENGL_CORE_PROFILE]
                      @ (if apple e then [GlfwWindowHint GLFW_OPENGL_FORWARD_COMPAT GL_TRUE]
                         else [])
                      @ [GlfwCreateWindow 800 600 ''OpenGL Template'']) s
      in case window_result e of
           None \<Rightarrow>
             Inl (- 1, emits [StdOut (''Failed to create GLFW window'' @ endl),
                              GlfwTerminate] s1)
         | Some window \<Rightarrow>
             (let s2 = emits [GlfwMakeContextCurrent window, GladLoadGLLoader] s1
              in if glad_result e = 0 then
                   Inl (- 1, emits [StdOut (''Failed to initialize GLAD'' @ endl)] s2)
                 else
                   Inr (window, emits [GlViewport 0 0 800 600,
                                       GlfwSetFramebufferSizeCallback window] s2)))"

subsection \<open>\<^verbatim>\<open>framebuffer_size_callback\<close> and \<^verbatim>\<open>process_input\<close>\<close>

definition framebuffer_size_callback :: "window \<Rightarrow> int \<Rightarrow> int \<Rightarrow> state \<Rightarrow> state" where
  "framebuffer_size_callback window width height s = emit (GlViewport 0 0 width height) s"

definition process_input :: "env \<Rightarrow> window \<Rightarrow> state \<Rightarrow> state" where
  "process_input e window s =
     (let s1 = emit (GlfwGetKey window GLFW_KEY_ESCAPE) s
      in if escape_key e (polls s) = GLFW_PRESS then
           emit (GlfwSetWindowShouldClose window True) s1
         else s1)"

subsection \<open>\<^verbatim>\<open>get_shader_program\<close>\<close>

definition vertex_shader_source :: string where
  "vertex_shader_source =
     ''#version 330 core'' @ endl @
     ''layout(location=0) in vec3 aPos;'' @ endl @
     ''void main() {'' @ endl @
     ''    gl_Position = vec4(aPos.x, aPos.y, aPos.z, 1.0);'' @ endl @
     ''}''"

definition fragment_shader_source :: string where
  "fragment_shader_source =
     ''#version 330 core'' @ endl @
     ''out vec4 FragColor;'' @ endl @
     ''void main() {'' @ endl @
     ''    FragColor = vec4(1.0f, 0.5f, 0.2f, 1.0f);'' @ endl @
     ''}''"

text \<open>
  What \<^verbatim>\<open>glGetShaderInfoLog(id, bufSize, NULL, info_log)\<close> leaves in the buffer:
  the driver's log cut to fit \<open>bufSize\<close> characters, the terminating zero included.
\<close>

definition info_log :: "nat \<Rightarrow> string \<Rightarrow> string" where
  "info_log bufSize driver_log = take (bufSize - 1) driver_log"

definition get_shader_program :: "env \<Rightarrow> state \<Rightarrow> GLuint outcome" where
  "get_shader_program e s =
     (let vertex_shader_id = vertex_shader_name e;
          s1 = emits [GlCreateShader GL_VERTEX_SHADER,
                      GlShaderSource vertex_shader_id vertex_shader_source,
                      GlCompileShader vertex_shader_id,
                      GlGetShaderiv vertex_shader_id GL_COMPILE_STATUS] s
      in if vertex_compile_status e = 0 then
           Inl (- 1, emits [GlGetShaderInfoLog vertex_shader_id 512,
                            StdOut (''Fatal Error - Compilation of vertex shader failed:''
                                    @ endl @ info_log 512 (vertex_info_log e) @ endl)] s1)
         else
           (let fragment_shader_id = fragment_shader_name e;
                shader_program_id = program_name e;
                s2 = emits [GlCreateShader GL_FRAGMENT_SHADER,
                            GlShaderSource fragment_shader_id fragment_shader_source,
                            GlCompileShader fragment_shader_id,
                            GlCreateProgram,
                            GlAttachShader shader_program_id vertex_shader_id,
                            GlAttachShader shader_program_id fragment_shader_id,
                            GlLinkProgram shader_program_id,
                            GlUseProgram shader_program_id,
                            GlGetShaderiv fragment_shader_id GL_COMPILE_STATUS] s1
            in if fragment_compile_status e = 0 then
                 Inl (- 1, emits [GlGetShaderInfoLog fragment_shader_id 512,
                                  StdOut (''Fatal Error - Compilation of fragment shader failed:''
                                          @ endl @ info_log 512 (fragment_info_log e) @ endl)] s2)
               else
                 Inr (shader_program_id, emits [GlDeleteShader vertex_shader_id,
                                                GlDeleteShader fragment_shader_id] s2)))"

subsection \<open>\<^verbatim>\<open>main\<close>\<close>

definition vertices :: "gl_float list" where
  "vertices = [- 0.5, - 0.5, 0.0, 0.5, - 0.5, 0.0, 0.0, 0.5, 0.0]"

definition sizeof_float :: nat where
  "sizeof_float = 4"

text \<open>Lines 45 to 77: the vertex array object and the vertex buffer object.\<close>

definition upload_geometry :: "GLuint \<Rightarrow> GLuint \<Rightarrow> state \<Rightarrow> state" where
  "upload_geometry vao_id vbo_id s =
     emits [GlGenVertexArrays 1,
            GlGenBuffers 1,
            GlBindVertexArray vao_id,
            GlBindBuffer GL_ARRAY_BUFFER vbo_id,
            GlBufferData GL_ARRAY_BUFFER (length vertices * sizeof_float) vertices
              GL_STATIC_DRAW,
            GlVertexAttribPointer 0 3 GL_FLOAT False (3 * sizeof_float) 0,
            GlEnableVertexAttribArray 0,
            GlBindBuffer GL_ARRAY_BUFFER 0,
            GlBindVertexArray 0] s"

text \<open>
  \<^verbatim>\<open>glfwPollEvents\<close> delivers what the window system has pending: a close request
  sets the close flag, and each framebuffer size event runs the callback that
  \<^verbatim>\<open>init_window\<close> registered.
\<close>

definition poll_events :: "env \<Rightarrow> window \<Rightarrow> state \<Rightarrow> state" where
  "poll_events e window s =
     (let s1 = emit GlfwPollEvents s;
          s2 = s1\<lparr>close_flag := close_flag s1 \<or> close_requested e (polls s)\<rparr>;
          s3 = foldl (\<lambda>t (width, height). framebuffer_size_callback window width height t)
                 s2 (resize_events e (polls s))
      in s3\<lparr>polls := Suc (polls s)\<rparr>)"

text \<open>Lines 80 to 90: the body of the render loop.\<close>

definition loop_body :: "env \<Rightarrow> window \<Rightarrow> GLuint \<Rightarrow> GLuint \<Rightarrow> state \<Rightarrow> state" where
  "loop_body e window shader_program_id vao_id s =
     (let s1 = process_input e window s;
          s2 = emits [GlClearColor 0.2 0.3 0.3 1.0,
                      GlClear GL_COLOR_BUFFER_BIT,
                      GlUseProgram shader_program_id,
                      GlBindVertexArray vao_id,
                      GlDrawArrays GL_TRIANGLES 0 3,
                      GlfwSwapBuffers window] s1
      in poll_events e window s2)"

text \<open>
  Lines 79 to 91. The loop runs for as long as the close flag stays clear, which may be
  forever: \<open>None\<close> is the run that never leaves the loop.
\<close>

partial_function (option) render_loop ::
  "env \<Rightarrow> window \<Rightarrow> GLuint \<Rightarrow> GLuint \<Rightarrow> state \<Rightarrow> state option" where
  "render_loop e window shader_program_id vao_id s =
     (let s1 = emit (GlfwWindowShouldClose window) s
      in if close_flag s1 then Some s1
         else render_loop e window shader_program_id vao_id
                (loop_body e window shader_program_id vao_id s1))"

declare render_loop.simps [code]

text \<open>Lines 95 to 99.\<close>

definition shutdown :: "GLuint \<Rightarrow> GLuint \<Rightarrow> GLuint \<Rightarrow> state \<Rightarrow> state" where
  "shutdown vao_id vbo_id shader_program_id s =
     emits [GlDeleteVertexArrays vao_id,
            GlDeleteBuffers vbo_id,
            GlDeleteProgram shader_program_id,
            GlfwTerminate] s"

text \<open>
  The process: \<open>Some (code, s)\<close> when it ends with exit status \<open>code\<close> in state
  \<open>s\<close>, \<open>None\<close> when it runs forever.
\<close>

definition main :: "env \<Rightarrow> (int \<times> state) option" where
  "main e =
     (case init_window e initial_state of
        Inl x \<Rightarrow> Some x
      | Inr (window, s1) \<Rightarrow>
          (case get_shader_program e s1 of
             Inl x \<Rightarrow> Some x
           | Inr (shader_program_id, s2) \<Rightarrow>
               (let vao_id = vao_name e;
                    vbo_id = vbo_name e;
                    s3 = upload_geometry vao_id vbo_id s2
                in case render_loop e window shader_program_id vao_id s3 of
                     None \<Rightarrow> None
                   | Some s4 \<Rightarrow> Some (0, shutdown vao_id vbo_id shader_program_id s4))))"

subsection \<open>Vocabulary for the properties\<close>

text \<open>
  Classes of calls. The only draw call of the program is \<^verbatim>\<open>glDrawArrays\<close>, which
  draws from the bound vertex arrays without an index buffer; the only call that writes
  the data store of a buffer is \<^verbatim>\<open>glBufferData\<close>.
\<close>

definition is_draw_call :: "call \<Rightarrow> bool" where
  "is_draw_call c = (case c of GlDrawArrays m f n \<Rightarrow> True | _ \<Rightarrow> False)"

definition is_buffer_write :: "call \<Rightarrow> bool" where
  "is_buffer_write c = (case c of GlBufferData t n xs u \<Rightarrow> True | _ \<Rightarrow> False)"

text \<open>The calls that give a resource back: the three deletions of \<^verbatim>\<open>main\<close> and \<^verbatim>\<open>glfwTerminate\<close>.\<close>

definition is_release :: "call \<Rightarrow> bool" where
  "is_release c =
     (case c of GlDeleteVertexArrays v \<Rightarrow> True | GlDeleteBuffers b \<Rightarrow> True
      | GlDeleteProgram p \<Rightarrow> True | GlfwTerminate \<Rightarrow> True | _ \<Rightarrow> False)"

text \<open>The test of the render loop is the only call of \<^verbatim>\<open>glfwWindowShouldClose\<close>.\<close>

definition is_loop_test :: "call \<Rightarrow> bool" where
  "is_loop_test c = (case c of GlfwWindowShouldClose w \<Rightarrow> True | _ \<Rightarrow> False)"

text \<open>What a state has written to standard output.\<close>

definition printed_by :: "call \<Rightarrow> string" where
  "printed_by c = (case c of StdOut t \<Rightarrow> t | _ \<Rightarrow> [])"

definition printed :: "state \<Rightarrow> string" where
  "printed s = concat (map printed_by (trace s))"

text \<open>One passed loop test followed by the loop body.\<close>

definition iteration :: "env \<Rightarrow> window \<Rightarrow> GLuint \<Rightarrow> GLuint \<Rightarrow> state \<Rightarrow> state" where
  "iteration e window shader_program_id vao_id s =
     loop_body e window shader_program_id vao_id (emit (GlfwWindowShouldClose window) s)"

text \<open>The calls of the iteration that starts after \<open>n\<close> polls.\<close>

definition frame_calls :: "env \<Rightarrow> window \<Rightarrow> GLuint \<Rightarrow> GLuint \<Rightarrow> nat \<Rightarrow> call list" where
  "frame_calls e window shader_program_id vao_id n =
     [GlfwWindowShouldClose window, GlfwGetKey window GLFW_KEY_ESCAPE]
     @ (if escape_key e n = GLFW_PRESS then [GlfwSetWindowShouldClose window True] else [])
     @ [GlClearColor 0.2 0.3 0.3 1.0,
        GlClear GL_COLOR_BUFFER_BIT,
        GlUseProgram shader_program_id,
        GlBindVertexArray vao_id,
        GlDrawArrays GL_TRIANGLES 0 3,
        GlfwSwapBuffers window,
        GlfwPollEvents]
     @ map (\<lambda>(width, height). GlViewport 0 0 width height) (resize_events e n)"

text \<open>The iteration after \<open>n\<close> polls sets the close flag.\<close>

definition closes :: "env \<Rightarrow> nat \<Rightarrow> bool" where
  "closes e n = (escape_key e n = GLFW_PRESS \<or> close_requested e n)"

text \<open>
  The calls of a start that succeeds, from \<^verbatim>\<open>glfwInit\<close> to the last unbind before
  the loop, and the calls after the loop. Lemma \<open>main_startup\<close> below proves that
  these are what \<open>main\<close> issues.
\<close>

definition startup_calls :: "env \<Rightarrow> window \<Rightarrow> call list" where
  "startup_calls e window =
     [GlfwInit,
      GlfwWindowHint GLFW_CONTEXT_VERSION_MAJOR (Num 3),
      GlfwWindowHint GLFW_CONTEXT_VERSION_MINOR (Num 3),
      GlfwWindowHint GLFW_OPENGL_PROFILE GLFW_OPENGL_CORE_PROFILE]
     @ (if apple e then [GlfwWindowHint GLFW_OPENGL_FORWARD_COMPAT GL_TRUE] else [])
     @ [GlfwCreateWindow 800 600 ''OpenGL Template'',
        GlfwMakeContextCurrent window,
        GladLoadGLLoader,
        GlViewport 0 0 800 600,
        GlfwSetFramebufferSizeCallback window,
        GlCreateShader GL_VERTEX_SHADER,
        GlShaderSource (vertex_shader_name e) vertex_shader_source,
        GlCompileShader (vertex_shader_name e),
        GlGetShaderiv (vertex_shader_name e) GL_COMPILE_STATUS,
        GlCreateShader GL_FRAGMENT_SHADER,
        GlShaderSource (fragment_shader_name e) fragment_shader_source,
        GlCompileShader (fragment_shader_name e),
        GlCreateProgram,
        GlAttachShader (program_name e) (vertex_shader_name e),
        GlAttachShader (program_name e) (fragment_shader_name e),
        GlLinkProgram (program_name e),
        GlUseProgram (program_name e),
        GlGetShaderiv (fragment_shader_name e) GL_COMPILE_STATUS,
        GlDeleteShader (vertex_shader_name e),
        GlDeleteShader (fragment_shader_name e),
        GlGenVertexArrays 1,
        GlGenBuffers 1,
        GlBindVertexArray (vao_name e),
        GlBindBuffer GL_ARRAY_BUFFER (vbo_name e),
        GlBufferData GL_ARRAY_BUFFER 36 [- 0.5, - 0.5, 0, 0.5, - 0.5, 0, 0, 0.5, 0]
          GL_STATIC_DRAW,
        GlVertexAttribPointer 0 3 GL_FLOAT False 12 0,
        GlEnableVertexAttribArray 0,
        GlBindBuffer GL_ARRAY_BUFFER 0,
        GlBindVertexArray 0]"

definition shutdown_calls :: "env \<Rightarrow> call list" where
  "shutdown_calls e =
     [GlDeleteVertexArrays (vao_name e),
      GlDeleteBuffers (vbo_name e),
      GlDeleteProgram (program_name e),
      GlfwTerminate]"

text \<open>
  An environment in which everything succeeds, the framebuffer is resized during the
  first frame and the escape key is down when the second frame reads it.
\<close>

definition sample_env :: env where
  "sample_env =
     \<lparr>apple = False, glfw_init_result = 1, window_result = Some 7, glad_result = 1,
      vertex_shader_name = 1, vertex_compile_status = 1, vertex_info_log = [],
      fragment_shader_name = 2, fragment_compile_status = 1, fragment_info_log = [],
      program_name = 3, link_status = 1, vao_name = 1, vbo_name = 1,
      escape_key = (\<lambda>n. if n = 1 then GLFW_PRESS else GLFW_RELEASE),
      close_requested = (\<lambda>n. False),
      resize_events = (\<lambda>n. if n = 0 then [(1024, 768)] else [])\<rparr>"

text \<open>The input check of a frame is the only call of \<^verbatim>\<open>glfwGetKey\<close>.\<close>

definition is_input_check :: "call \<Rightarrow> bool" where
  "is_input_check c = (case c of GlfwGetKey w k \<Rightarrow> True | _ \<Rightarrow> False)"

text \<open>The state in which a function returns or ends the process.\<close>

definition final_state :: "'a outcome \<Rightarrow> state" where
  "final_state r = (case r of Inl (code, s) \<Rightarrow> s | Inr (v, s) \<Rightarrow> s)"

text \<open>The releasing calls of a whole run, in order.\<close>

definition released :: "env \<Rightarrow> call list option" where
  "released e = map_option (\<lambda>(code, s). filter is_release (trace s)) (main e)"

text \<open>
  The vertex arrays, buffers and programs that a call names in its arguments. The three
  kinds of name are counted apart, as OpenGL does: a vertex array and a buffer may carry
  the same number.
\<close>

datatype gl_object = VertexArray GLuint | Buffer GLuint | Program GLuint

definition refs :: "call \<Rightarrow> gl_object list" where
  "refs c =
     (case c of
        GlAttachShader p s \<Rightarrow> [Program p]
      | GlLinkProgram p \<Rightarrow> [Program p]
      | GlUseProgram p \<Rightarrow> [Program p]
      | GlDeleteProgram p \<Rightarrow> [Program p]
      | GlBindVertexArray v \<Rightarrow> [VertexArray v]
      | GlDeleteVertexArrays v \<Rightarrow> [VertexArray v]
      | GlBindBuffer t b \<Rightarrow> [Buffer b]
      | GlDeleteBuffers b \<Rightarrow> [Buffer b]
      | _ \<Rightarrow> [])"

section \<open>Properties\<close>

subsection \<open>Calls and state\<close>

lemma trace_effect [simp]: "trace (effect c s) = trace s"
  by (induction c s rule: effect.induct) simp_all

lemma polls_effect [simp]: "polls (effect c s) = polls s"
  by (induction c s rule: effect.induct) simp_all

lemma trace_emit [simp]: "trace (emit c s) = trace s @ [c]"
  by (simp add: emit_def)

lemma polls_emit [simp]: "polls (emit c s) = polls s"
  by (simp add: emit_def)

lemma close_flag_emit:
  "close_flag (emit c s) = (case c of GlfwSetWindowShouldClose w b \<Rightarrow> b | _ \<Rightarrow> close_flag s)"
  unfolding emit_def by (induction c s rule: effect.induct) simp_all

lemma buffer_data_emit:
  "\<not> is_buffer_write c \<Longrightarrow> (\<forall>b. c \<noteq> GlDeleteBuffers b) \<Longrightarrow> buffer_data (emit c s) = buffer_data s"
  unfolding emit_def by (induction c s rule: effect.induct) (simp_all add: is_buffer_write_def)

lemma emits_Nil [simp]: "emits [] s = s"
  by (simp add: emits_def)

lemma emits_Cons [simp]: "emits (c # cs) s = emits cs (emit c s)"
  by (simp add: emits_def)

lemma emits_append [simp]: "emits (cs @ ds) s = emits ds (emits cs s)"
  by (simp add: emits_def)

lemma trace_emits [simp]: "trace (emits cs s) = trace s @ cs"
  by (induction cs arbitrary: s) simp_all

lemma polls_emits [simp]: "polls (emits cs s) = polls s"
  by (induction cs arbitrary: s) simp_all

subsection \<open>One iteration\<close>

lemma callbacks_trace:
  "trace (foldl (\<lambda>t (width, height). framebuffer_size_callback w width height t) s evs) =
     trace s @ map (\<lambda>(width, height). GlViewport 0 0 width height) evs"
  by (induction evs arbitrary: s) (auto simp: framebuffer_size_callback_def)

lemma close_flag_callback [simp]:
  "close_flag (framebuffer_size_callback w width height s) = close_flag s"
  by (simp add: framebuffer_size_callback_def emit_def)

lemma callbacks_close_flag:
  "close_flag (foldl (\<lambda>t (width, height). framebuffer_size_callback w width height t) s evs) =
     close_flag s"
  by (induction evs arbitrary: s) (simp_all add: split_def)

lemma callbacks_buffer_data:
  "buffer_data (foldl (\<lambda>t (width, height). framebuffer_size_callback w width height t) s evs) =
     buffer_data s"
  by (induction evs arbitrary: s)
     (auto simp: framebuffer_size_callback_def buffer_data_emit is_buffer_write_def)

lemma trace_iteration:
  "trace (iteration e w p v s) = trace s @ frame_calls e w p v (polls s)"
  by (simp add: iteration_def loop_body_def process_input_def poll_events_def Let_def
      callbacks_trace frame_calls_def)

lemma polls_iteration: "polls (iteration e w p v s) = Suc (polls s)"
  by (simp add: iteration_def loop_body_def process_input_def poll_events_def Let_def)

lemma close_flag_iteration:
  "close_flag (iteration e w p v s) =
     (escape_key e (polls s) = GLFW_PRESS \<or> close_flag s \<or> close_requested e (polls s))"
  by (simp add: iteration_def loop_body_def process_input_def poll_events_def Let_def
      callbacks_close_flag close_flag_emit)

lemma buffer_data_iteration: "buffer_data (iteration e w p v s) = buffer_data s"
  by (simp add: iteration_def loop_body_def process_input_def poll_events_def Let_def
      callbacks_buffer_data buffer_data_emit is_buffer_write_def)

subsection \<open>The loop\<close>

lemma render_loop_exit:
  "close_flag s \<Longrightarrow> render_loop e w p v s = Some (emit (GlfwWindowShouldClose w) s)"
  by (subst render_loop.simps) (simp add: close_flag_emit)

lemma render_loop_step:
  "\<not> close_flag s \<Longrightarrow> render_loop e w p v s = render_loop e w p v (iteration e w p v s)"
  by (subst render_loop.simps) (simp add: close_flag_emit iteration_def)

lemma render_loop_Some:
  assumes "render_loop e w p v s = Some s'"
  shows "\<exists>n. (\<forall>k<n. \<not> close_flag ((iteration e w p v ^^ k) s))
           \<and> close_flag ((iteration e w p v ^^ n) s)
           \<and> s' = emit (GlfwWindowShouldClose w) ((iteration e w p v ^^ n) s)"
proof (rule render_loop.raw_induct
    [where P = "\<lambda>e w p v s s'. \<exists>n. (\<forall>k<n. \<not> close_flag ((iteration e w p v ^^ k) s))
           \<and> close_flag ((iteration e w p v ^^ n) s)
           \<and> s' = emit (GlfwWindowShouldClose w) ((iteration e w p v ^^ n) s)", OF _ assms])
  fix loop :: "env \<Rightarrow> window \<Rightarrow> GLuint \<Rightarrow> GLuint \<Rightarrow> state \<Rightarrow> state option"
  fix e w p v s s'
  assume IH: "\<And>e w p v s y. loop e w p v s = Some y \<Longrightarrow>
      \<exists>n. (\<forall>k<n. \<not> close_flag ((iteration e w p v ^^ k) s))
           \<and> close_flag ((iteration e w p v ^^ n) s)
           \<and> y = emit (GlfwWindowShouldClose w) ((iteration e w p v ^^ n) s)"
  assume eq: "(let s1 = emit (GlfwWindowShouldClose w) s
               in if close_flag s1 then Some s1
                  else loop e w p v (loop_body e w p v s1)) = Some s'"
  define it where "it = iteration e w p v"
  have shift: "(it ^^ Suc k) t = (it ^^ k) (it t)" for k t
    by (simp only: funpow_Suc_right o_apply)
  show "\<exists>n. (\<forall>k<n. \<not> close_flag ((iteration e w p v ^^ k) s))
           \<and> close_flag ((iteration e w p v ^^ n) s)
           \<and> s' = emit (GlfwWindowShouldClose w) ((iteration e w p v ^^ n) s)"
  proof (cases "close_flag s")
    case True
    with eq have "s' = emit (GlfwWindowShouldClose w) s"
      by (simp add: close_flag_emit)
    with True have
      "(\<forall>k<0::nat. \<not> close_flag ((it ^^ k) s)) \<and> close_flag ((it ^^ 0) s)
         \<and> s' = emit (GlfwWindowShouldClose w) ((it ^^ 0) s)"
      by simp
    then show ?thesis
      unfolding it_def by (rule exI)
  next
    case False
    with eq have "loop e w p v (iteration e w p v s) = Some s'"
      by (simp add: close_flag_emit iteration_def)
    from IH[OF this]
    have "\<exists>n. (\<forall>k<n. \<not> close_flag ((it ^^ k) (it s)))
           \<and> close_flag ((it ^^ n) (it s))
           \<and> s' = emit (GlfwWindowShouldClose w) ((it ^^ n) (it s))"
      unfolding it_def .
    then obtain n where n:
      "\<forall>k<n. \<not> close_flag ((it ^^ k) (it s))"
      "close_flag ((it ^^ n) (it s))"
      "s' = emit (GlfwWindowShouldClose w) ((it ^^ n) (it s))"
      by (elim exE conjE)
    have "\<not> close_flag ((it ^^ k) s)" if "k < Suc n" for k
    proof (cases k)
      case 0
      with False show ?thesis by simp
    next
      case (Suc j)
      with that have "j < n" by simp
      with n(1) have "\<not> close_flag ((it ^^ j) (it s))" by (elim allE impE)
      then show ?thesis
        unfolding Suc shift .
    qed
    then have "(\<forall>k<Suc n. \<not> close_flag ((it ^^ k) s)) \<and> close_flag ((it ^^ Suc n) s)
         \<and> s' = emit (GlfwWindowShouldClose w) ((it ^^ Suc n) s)"
      unfolding shift using n(2,3) by (intro conjI allI impI)
    then show ?thesis
      unfolding it_def by (rule exI)
  qed
qed

lemma render_loop_iterations:
  "(\<forall>k<n. \<not> close_flag ((iteration e w p v ^^ k) s)) \<Longrightarrow>
   render_loop e w p v s = render_loop e w p v ((iteration e w p v ^^ n) s)"
proof (induction n arbitrary: s)
  case 0
  show ?case by simp
next
  case (Suc n)
  from Suc.prems have "\<not> close_flag s" by auto
  then have "render_loop e w p v s = render_loop e w p v (iteration e w p v s)"
    by (rule render_loop_step)
  also have "\<dots> = render_loop e w p v ((iteration e w p v ^^ n) (iteration e w p v s))"
  proof (rule Suc.IH)
    show "\<forall>k<n. \<not> close_flag ((iteration e w p v ^^ k) (iteration e w p v s))"
      using Suc.prems by (auto simp: funpow_swap1 dest: spec[of _ "Suc _"])
  qed
  finally show ?case by (simp add: funpow_swap1)
qed

lemma polls_iterations: "polls ((iteration e w p v ^^ n) s) = polls s + n"
  by (induction n) (simp_all add: polls_iteration)

lemma buffer_data_iterations: "buffer_data ((iteration e w p v ^^ n) s) = buffer_data s"
  by (induction n) (simp_all add: buffer_data_iteration)

lemma trace_iterations:
  "trace ((iteration e w p v ^^ n) s) =
     trace s @ concat (map (\<lambda>k. frame_calls e w p v (polls s + k)) [0..<n])"
  by (induction n) (simp_all add: trace_iteration polls_iterations)

lemma close_flag_iterations:
  "close_flag ((iteration e w p v ^^ n) s) = (close_flag s \<or> (\<exists>k<n. closes e (polls s + k)))"
proof (induction n)
  case 0
  show ?case by simp
next
  case (Suc n)
  have "(\<exists>k<Suc n. closes e (polls s + k)) =
        ((\<exists>k<n. closes e (polls s + k)) \<or> closes e (polls s + n))"
    by (simp only: less_Suc_eq) blast
  with Suc show ?case
    by (simp add: close_flag_iteration polls_iterations closes_def) blast
qed

lemma render_loop_closes:
  assumes "\<not> close_flag s" and "polls s = 0"
    and "\<forall>j<n. \<not> closes e j" and "closes e n"
  shows "render_loop e w p v s =
           Some (emit (GlfwWindowShouldClose w) ((iteration e w p v ^^ Suc n) s))"
proof -
  have "\<forall>k<Suc n. \<not> close_flag ((iteration e w p v ^^ k) s)"
    using assms(1-3) by (simp only: close_flag_iterations) auto
  then have "render_loop e w p v s = render_loop e w p v ((iteration e w p v ^^ Suc n) s)"
    by (rule render_loop_iterations)
  moreover have "close_flag ((iteration e w p v ^^ Suc n) s)"
    using assms(2,4) by (simp only: close_flag_iterations) auto
  ultimately show ?thesis
    by (simp only: render_loop_exit)
qed

subsection \<open>The whole run\<close>

lemma main_startup:
  assumes "window_result e = Some w" and "glad_result e \<noteq> 0"
    and "vertex_compile_status e \<noteq> 0" and "fragment_compile_status e \<noteq> 0"
  shows "main e =
           map_option (\<lambda>t. (0, emits (shutdown_calls e) t))
             (render_loop e w (program_name e) (vao_name e)
                (emits (startup_calls e w) initial_state))"
  using assms
  by (simp add: main_def init_window_def get_shader_program_def upload_geometry_def
      shutdown_def startup_calls_def shutdown_calls_def vertices_def sizeof_float_def
      Let_def map_option_case split: option.splits)

lemma close_flag_emits_startup:
  "close_flag (emits (startup_calls e w) s) = close_flag s"
  by (simp add: startup_calls_def close_flag_emit)

lemma startup_state:
  "\<not> close_flag (emits (startup_calls e w) initial_state)"
  "polls (emits (startup_calls e w) initial_state) = 0"
  "trace (emits (startup_calls e w) initial_state) = startup_calls e w"
  by (simp_all add: close_flag_emits_startup) (simp_all add: initial_state_def)

lemma main_closes:
  assumes "window_result e = Some w" and "glad_result e \<noteq> 0"
    and "vertex_compile_status e \<noteq> 0" and "fragment_compile_status e \<noteq> 0"
    and "\<forall>j<n. \<not> closes e j" and "closes e n"
  shows "main e =
           Some (0, emits (shutdown_calls e) (emit (GlfwWindowShouldClose w)
             ((iteration e w (program_name e) (vao_name e) ^^ Suc n)
                (emits (startup_calls e w) initial_state))))"
  by (simp only: main_startup[OF assms(1-4)]
      render_loop_closes[OF startup_state(1,2) assms(5,6)] option.map)

lemma main_Some:
  assumes "window_result e = Some w" and "glad_result e \<noteq> 0"
    and "vertex_compile_status e \<noteq> 0" and "fragment_compile_status e \<noteq> 0"
    and "main e = Some (r, s)"
  shows "r = 0 \<and> (\<exists>n. s = emits (shutdown_calls e) (emit (GlfwWindowShouldClose w)
             ((iteration e w (program_name e) (vao_name e) ^^ n)
                (emits (startup_calls e w) initial_state))))"
proof -
  from assms(5) obtain t where
    t: "render_loop e w (program_name e) (vao_name e) (emits (startup_calls e w) initial_state)
          = Some t"
    and rs: "r = 0" "s = emits (shutdown_calls e) t"
    unfolding main_startup[OF assms(1-4)] by (auto simp: map_option_case split: option.splits)
  from render_loop_Some[OF t] rs show ?thesis
    by blast
qed

lemma trace_run:
  "trace (emits (shutdown_calls e) (emit (GlfwWindowShouldClose w)
     ((iteration e w p v ^^ n) (emits (startup_calls e w) initial_state)))) =
   startup_calls e w @ concat (map (frame_calls e w p v) [0..<n])
     @ GlfwWindowShouldClose w # shutdown_calls e"
  by (simp add: trace_iterations initial_state_def)

lemma filter_frame_calls:
  "filter is_draw_call (frame_calls e w p v n) = [GlDrawArrays GL_TRIANGLES 0 3]"
  "filter is_buffer_write (frame_calls e w p v n) = []"
  "filter is_release (frame_calls e w p v n) = []"
  "concat (map printed_by (frame_calls e w p v n)) = []"
  by (simp_all add: frame_calls_def is_draw_call_def is_buffer_write_def is_release_def
      printed_by_def filter_map comp_def split_def)

lemma filter_frames:
  "filter is_buffer_write (concat (map (frame_calls e w p v) ns)) = []"
  "filter is_release (concat (map (frame_calls e w p v) ns)) = []"
  "concat (map printed_by (concat (map (frame_calls e w p v) ns))) = []"
  by (induction ns) (simp_all add: filter_frame_calls)

lemma filter_startup_calls:
  "filter is_buffer_write (startup_calls e w) =
     [GlBufferData GL_ARRAY_BUFFER 36 [- 0.5, - 0.5, 0, 0.5, - 0.5, 0, 0, 0.5, 0] GL_STATIC_DRAW]"
  "filter is_release (startup_calls e w) = []"
  "concat (map printed_by (startup_calls e w)) = []"
  by (simp_all add: startup_calls_def is_buffer_write_def is_release_def printed_by_def)

subsection \<open>Answers that the program never reads\<close>

lemma render_loop_eq_Some_iff:
  "render_loop e w p v s = Some s' \<longleftrightarrow>
     (\<exists>n. (\<forall>k<n. \<not> close_flag ((iteration e w p v ^^ k) s))
           \<and> close_flag ((iteration e w p v ^^ n) s)
           \<and> s' = emit (GlfwWindowShouldClose w) ((iteration e w p v ^^ n) s))"
proof
  assume "render_loop e w p v s = Some s'"
  then show "\<exists>n. (\<forall>k<n. \<not> close_flag ((iteration e w p v ^^ k) s))
           \<and> close_flag ((iteration e w p v ^^ n) s)
           \<and> s' = emit (GlfwWindowShouldClose w) ((iteration e w p v ^^ n) s)"
    by (rule render_loop_Some)
next
  assume "\<exists>n. (\<forall>k<n. \<not> close_flag ((iteration e w p v ^^ k) s))
           \<and> close_flag ((iteration e w p v ^^ n) s)
           \<and> s' = emit (GlfwWindowShouldClose w) ((iteration e w p v ^^ n) s)"
  then obtain n where n: "\<forall>k<n. \<not> close_flag ((iteration e w p v ^^ k) s)"
    "close_flag ((iteration e w p v ^^ n) s)"
    "s' = emit (GlfwWindowShouldClose w) ((iteration e w p v ^^ n) s)"
    by (elim exE conjE)
  have "render_loop e w p v s = render_loop e w p v ((iteration e w p v ^^ n) s)"
    using n(1) by (rule render_loop_iterations)
  also have "\<dots> = Some (emit (GlfwWindowShouldClose w) ((iteration e w p v ^^ n) s))"
    using n(2) by (rule render_loop_exit)
  finally show "render_loop e w p v s = Some s'"
    unfolding n(3) .
qed

lemma render_loop_cong:
  assumes "iteration e' w p v = iteration e w p v"
  shows "render_loop e' w p v s = render_loop e w p v s"
proof -
  have "(render_loop e' w p v s = Some s') = (render_loop e w p v s = Some s')" for s'
    by (simp only: render_loop_eq_Some_iff assms)
  then have same: "(render_loop e' w p v s = Some s') = (render_loop e w p v s = Some s')"
    for s' .
  show ?thesis
  proof (cases "render_loop e w p v s")
    case None
    show ?thesis
    proof (cases "render_loop e' w p v s")
      case (Some t)
      then have "render_loop e w p v s = Some t"
        by (simp only: same)
      with None show ?thesis by simp
    qed (simp only: None)
  next
    case (Some t)
    then have "render_loop e' w p v s = Some t"
      by (simp only: same)
    with Some show ?thesis by simp
  qed
qed

lemma render_loop_link_status:
  "render_loop (e\<lparr>link_status := l\<rparr>) w p v s = render_loop e w p v s"
  by (rule render_loop_cong, rule ext)
     (simp add: iteration_def loop_body_def process_input_def poll_events_def Let_def)

lemma render_loop_glfw_init_result:
  "render_loop (e\<lparr>glfw_init_result := r\<rparr>) w p v s = render_loop e w p v s"
  by (rule render_loop_cong, rule ext)
     (simp add: iteration_def loop_body_def process_input_def poll_events_def Let_def)

lemma get_shader_program_ok:
  assumes "vertex_compile_status e \<noteq> 0" and "fragment_compile_status e \<noteq> 0"
  shows "get_shader_program e s =
    Inr (program_name e,
      emits [GlCreateShader GL_VERTEX_SHADER,
             GlShaderSource (vertex_shader_name e) vertex_shader_source,
             GlCompileShader (vertex_shader_name e),
             GlGetShaderiv (vertex_shader_name e) GL_COMPILE_STATUS,
             GlCreateShader GL_FRAGMENT_SHADER,
             GlShaderSource (fragment_shader_name e) fragment_shader_source,
             GlCompileShader (fragment_shader_name e),
             GlCreateProgram,
             GlAttachShader (program_name e) (vertex_shader_name e),
             GlAttachShader (program_name e) (fragment_shader_name e),
             GlLinkProgram (program_name e),
             GlUseProgram (program_name e),
             GlGetShaderiv (fragment_shader_name e) GL_COMPILE_STATUS,
             GlDeleteShader (vertex_shader_name e),
             GlDeleteShader (fragment_shader_name e)] s)"
  using assms by (simp add: get_shader_program_def Let_def)

lemma init_window_link_status:
  "init_window (e\<lparr>link_status := l\<rparr>) s = init_window e s"
  by (simp add: init_window_def Let_def split: option.splits)

lemma get_shader_program_link_status:
  "get_shader_program (e\<lparr>link_status := l\<rparr>) s = get_shader_program e s"
  by (simp add: get_shader_program_def Let_def)

lemma init_window_glfw_init_result:
  "init_window (e\<lparr>glfw_init_result := r\<rparr>) s = init_window e s"
  by (simp add: init_window_def Let_def split: option.splits)

lemma get_shader_program_glfw_init_result:
  "get_shader_program (e\<lparr>glfw_init_result := r\<rparr>) s = get_shader_program e s"
  by (simp add: get_shader_program_def Let_def)

subsection \<open>Runs that end\<close>

lemma main_sample_env:
  "main sample_env =
     Some (0, emits (shutdown_calls sample_env) (emit (GlfwWindowShouldClose 7)
       ((iteration sample_env 7 (program_name sample_env) (vao_name sample_env) ^^ Suc 1)
          (emits (startup_calls sample_env 7) initial_state))))"
  by (rule main_closes) (simp_all add: sample_env_def closes_def)

lemma main_window_failure:
  assumes "window_result e = None"
  shows "main e =
    Some (- 1, emits
      ([GlfwInit,
        GlfwWindowHint GLFW_CONTEXT_VERSION_MAJOR (Num 3),
        GlfwWindowHint GLFW_CONTEXT_VERSION_MINOR (Num 3),
        GlfwWindowHint GLFW_OPENGL_PROFILE GLFW_OPENGL_CORE_PROFILE]
       @ (if apple e then [GlfwWindowHint GLFW_OPENGL_FORWARD_COMPAT GL_TRUE] else [])
       @ [GlfwCreateWindow 800 600 ''OpenGL Template'',
          StdOut (''Failed to create GLFW window'' @ endl),
          GlfwTerminate]) initial_state)"
  using assms by (simp add: main_def init_window_def Let_def)

lemma main_glad_failure:
  assumes "window_result e = Some w" and "glad_result e = 0"
  shows "main e =
    Some (- 1, emits
      ([GlfwInit,
        GlfwWindowHint GLFW_CONTEXT_VERSION_MAJOR (Num 3),
        GlfwWindowHint GLFW_CONTEXT_VERSION_MINOR (Num 3),
        GlfwWindowHint GLFW_OPENGL_PROFILE GLFW_OPENGL_CORE_PROFILE]
       @ (if apple e then [GlfwWindowHint GLFW_OPENGL_FORWARD_COMPAT GL_TRUE] else [])
       @ [GlfwCreateWindow 800 600 ''OpenGL Template'',
          GlfwMakeContextCurrent w,
          GladLoadGLLoader,
          StdOut (''Failed to initialize GLAD'' @ endl)]) initial_state)"
  using assms by (simp add: main_def init_window_def Let_def)

lemma main_vertex_failure:
  assumes "window_result e = Some w" and "glad_result e \<noteq> 0"
    and "vertex_compile_status e = 0"
  shows "main e =
    Some (- 1, emits
      ([GlfwInit,
        GlfwWindowHint GLFW_CONTEXT_VERSION_MAJOR (Num 3),
        GlfwWindowHint GLFW_CONTEXT_VERSION_MINOR (Num 3),
        GlfwWindowHint GLFW_OPENGL_PROFILE GLFW_OPENGL_CORE_PROFILE]
       @ (if apple e then [GlfwWindowHint GLFW_OPENGL_FORWARD_COMPAT GL_TRUE] else [])
       @ [GlfwCreateWindow 800 600 ''OpenGL Template'',
          GlfwMakeContextCurrent w,
          GladLoadGLLoader,
          GlViewport 0 0 800 600,
          GlfwSetFramebufferSizeCallback w,
          GlCreateShader GL_VERTEX_SHADER,
          GlShaderSource (vertex_shader_name e) vertex_shader_source,
          GlCompileShader (vertex_shader_name e),
          GlGetShaderiv (vertex_shader_name e) GL_COMPILE_STATUS,
          GlGetShaderInfoLog (vertex_shader_name e) 512,
          StdOut (''Fatal Error - Compilation of vertex shader failed:'' @ endl
                  @ take 511 (vertex_info_log e) @ endl)]) initial_state)"
  using assms by (simp add: main_def init_window_def get_shader_program_def Let_def info_log_def)

lemma main_fragment_failure:
  assumes "window_result e = Some w" and "glad_result e \<noteq> 0"
    and "vertex_compile_status e \<noteq> 0" and "fragment_compile_status e = 0"
  shows "main e =
    Some (- 1, emits
      ([GlfwInit,
        GlfwWindowHint GLFW_CONTEXT_VERSION_MAJOR (Num 3),
        GlfwWindowHint GLFW_CONTEXT_VERSION_MINOR (Num 3),
        GlfwWindowHint GLFW_OPENGL_PROFILE GLFW_OPENGL_CORE_PROFILE]
       @ (if apple e then [GlfwWindowHint GLFW_OPENGL_FORWARD_COMPAT GL_TRUE] else [])
       @ [GlfwCreateWindow 800 600 ''OpenGL Template'',
          GlfwMakeContextCurrent w,
          GladLoadGLLoader,
          GlViewport 0 0 800 600,
          GlfwSetFramebufferSizeCallback w,
          GlCreateShader GL_VERTEX_SHADER,
          GlShaderSource (vertex_shader_name e) vertex_shader_source,
          GlCompileShader (vertex_shader_name e),
          GlGetShaderiv (vertex_shader_name e) GL_COMPILE_STATUS,
          GlCreateShader GL_FRAGMENT_SHADER,
          GlShaderSource (fragment_shader_name e) fragment_shader_source,
          GlCompileShader (fragment_shader_name e),
          GlCreateProgram,
          GlAttachShader (program_name e) (vertex_shader_name e),
          GlAttachShader (program_name e) (fragment_shader_name e),
          GlLinkProgram (program_name e),
          GlUseProgram (program_name e),
          GlGetShaderiv (fragment_shader_name e) GL_COMPILE_STATUS,
          GlGetShaderInfoLog (fragment_shader_name e) 512,
          StdOut (''Fatal Error - Compilation of fragment shader failed:'' @ endl
                  @ take 511 (fragment_info_log e) @ endl)]) initial_state)"
  using assms by (simp add: main_def init_window_def get_shader_program_def Let_def info_log_def)

subsection \<open>Counting and locating calls\<close>

lemma filter_input_check_frame_calls:
  "filter is_input_check (frame_calls e w p v n) = [GlfwGetKey w GLFW_KEY_ESCAPE]"
  by (simp add: frame_calls_def is_input_check_def filter_map comp_def split_def)

lemma count_frames:
  "length (filter is_draw_call (concat (map (frame_calls e w p v) ns))) = length ns"
  "length (filter is_input_check (concat (map (frame_calls e w p v) ns))) = length ns"
  by (induction ns) (simp_all add: filter_frame_calls filter_input_check_frame_calls)

lemma filter_frames_shifted:
  "filter is_buffer_write (concat (map (\<lambda>k. frame_calls e w p v (f k)) ns)) = []"
  by (induction ns) (simp_all add: filter_frame_calls)

lemma buffer_data_upload_geometry:
  "buffer_data (upload_geometry vao vbo s) vbo =
     Some [- 0.5, - 0.5, 0, 0.5, - 0.5, 0, 0, 0.5, 0]"
  by (simp add: upload_geometry_def emit_def vertices_def)

lemma trace_upload_geometry:
  "trace (upload_geometry vao vbo s) =
     trace s
     @ [GlGenVertexArrays 1,
        GlGenBuffers 1,
        GlBindVertexArray vao,
        GlBindBuffer GL_ARRAY_BUFFER vbo,
        GlBufferData GL_ARRAY_BUFFER 36 [- 0.5, - 0.5, 0, 0.5, - 0.5, 0, 0, 0.5, 0]
          GL_STATIC_DRAW,
        GlVertexAttribPointer 0 3 GL_FLOAT False 12 0,
        GlEnableVertexAttribArray 0,
        GlBindBuffer GL_ARRAY_BUFFER 0,
        GlBindVertexArray 0]"
  by (simp add: upload_geometry_def vertices_def sizeof_float_def)

lemma main_cases:
  obtains (window) "window_result e = None"
  | (glad) w where "window_result e = Some w" "glad_result e = 0"
  | (vertex) w where "window_result e = Some w" "glad_result e \<noteq> 0"
      "vertex_compile_status e = 0"
  | (fragment) w where "window_result e = Some w" "glad_result e \<noteq> 0"
      "vertex_compile_status e \<noteq> 0" "fragment_compile_status e = 0"
  | (started) w where "window_result e = Some w" "glad_result e \<noteq> 0"
      "vertex_compile_status e \<noteq> 0" "fragment_compile_status e \<noteq> 0"
  by (cases "window_result e") auto

lemma main_started:
  assumes "main e = Some (0, s)"
  obtains w n where "window_result e = Some w"
    and "trace s = startup_calls e w
           @ concat (map (frame_calls e w (program_name e) (vao_name e)) [0..<n])
           @ GlfwWindowShouldClose w # shutdown_calls e"
proof (cases e rule: main_cases)
  case window
  with assms show ?thesis by (simp add: main_window_failure)
next
  case (glad w)
  with assms show ?thesis by (simp add: main_glad_failure)
next
  case (vertex w)
  with assms show ?thesis by (simp add: main_vertex_failure)
next
  case (fragment w)
  with assms show ?thesis by (simp add: main_fragment_failure)
next
  case (started w)
  from main_Some[OF started assms] obtain n where
    "s = emits (shutdown_calls e) (emit (GlfwWindowShouldClose w)
             ((iteration e w (program_name e) (vao_name e) ^^ n)
                (emits (startup_calls e w) initial_state)))"
    by (elim conjE exE)
  then have "trace s = startup_calls e w
           @ concat (map (frame_calls e w (program_name e) (vao_name e)) [0..<n])
           @ GlfwWindowShouldClose w # shutdown_calls e"
    by (simp only: trace_run)
  with started(1) show ?thesis by (rule that)
qed

lemma split_in_suffix:
  assumes "filter P pre = []" and "P c" and "pre @ suf = before @ c # after"
  shows "\<exists>us. suf = us @ c # after"
proof -
  from assms(3) consider us where "pre = before @ us" "us @ suf = c # after"
    | us where "pre @ us = before" "suf = us @ c # after"
    by (auto simp: append_eq_append_conv2)
  then show ?thesis
  proof cases
    case 1
    show ?thesis
    proof (cases us)
      case Nil
      with 1(2) have "suf = [] @ c # after" by simp
      then show ?thesis by (rule exI)
    next
      case (Cons u us')
      with 1 have "c \<in> set pre" by simp
      with assms(1,2) show ?thesis by (simp add: filter_empty_conv)
    qed
  next
    case 2
    from 2(2) show ?thesis by (rule exI)
  qed
qed

section \<open>The claims\<close>

subsection \<open>C1: the calls of one iteration\<close>

text \<open>
  C1. Every iteration that the loop enters, that is every loop test that finds the close
  flag clear, issues in this order: the input check (reading the escape key and, when it
  is down, requesting the close), the clear colour and the clear of the colour buffer,
  the activation of the shader program and of the vertex array object, one
  \<^verbatim>\<open>glDrawArrays(GL_TRIANGLES, 0, 3)\<close>, the buffer swap, and the event poll
  with the callbacks it runs. The iteration contains exactly one draw call.
\<close>

theorem loop_iteration_calls:
  assumes "\<not> close_flag s"
  shows "render_loop e w p v s = render_loop e w p v (iteration e w p v s)
    \<and> trace (iteration e w p v s) =
        trace s
        @ [GlfwWindowShouldClose w, GlfwGetKey w GLFW_KEY_ESCAPE]
        @ (if escape_key e (polls s) = GLFW_PRESS then [GlfwSetWindowShouldClose w True] else [])
        @ [GlClearColor 0.2 0.3 0.3 1.0,
           GlClear GL_COLOR_BUFFER_BIT,
           GlUseProgram p,
           GlBindVertexArray v,
           GlDrawArrays GL_TRIANGLES 0 3,
           GlfwSwapBuffers w,
           GlfwPollEvents]
        @ map (\<lambda>(width, height). GlViewport 0 0 width height) (resize_events e (polls s))
    \<and> filter is_draw_call (drop (length (trace s)) (trace (iteration e w p v s))) =
        [GlDrawArrays GL_TRIANGLES 0 3]"
proof (intro conjI)
  show "render_loop e w p v s = render_loop e w p v (iteration e w p v s)"
    using assms by (rule render_loop_step)
  show "trace (iteration e w p v s) =
        trace s
        @ [GlfwWindowShouldClose w, GlfwGetKey w GLFW_KEY_ESCAPE]
        @ (if escape_key e (polls s) = GLFW_PRESS then [GlfwSetWindowShouldClose w True] else [])
        @ [GlClearColor 0.2 0.3 0.3 1.0,
           GlClear GL_COLOR_BUFFER_BIT,
           GlUseProgram p,
           GlBindVertexArray v,
           GlDrawArrays GL_TRIANGLES 0 3,
           GlfwSwapBuffers w,
           GlfwPollEvents]
        @ map (\<lambda>(width, height). GlViewport 0 0 width height) (resize_events e (polls s))"
    by (simp add: trace_iteration frame_calls_def)
  show "filter is_draw_call (drop (length (trace s)) (trace (iteration e w p v s))) =
        [GlDrawArrays GL_TRIANGLES 0 3]"
    by (simp add: trace_iteration filter_frame_calls)
qed

theorem loop_iteration_calls_witness:
  "\<not> close_flag initial_state
   \<and> trace (iteration sample_env 7 3 1 initial_state) =
       [GlfwWindowShouldClose 7, GlfwGetKey 7 GLFW_KEY_ESCAPE,
        GlClearColor 0.2 0.3 0.3 1.0, GlClear GL_COLOR_BUFFER_BIT, GlUseProgram 3,
        GlBindVertexArray 1, GlDrawArrays GL_TRIANGLES 0 3, GlfwSwapBuffers 7,
        GlfwPollEvents, GlViewport 0 0 1024 768]"
proof -
  have h: "\<not> close_flag initial_state"
    by (simp add: initial_state_def)
  from loop_iteration_calls[OF h, of sample_env 7 3 1] h show ?thesis
    by (simp add: initial_state_def sample_env_def)
qed

subsection \<open>C2: exit status and diagnostics\<close>

text \<open>
  C2. The process ends with status \<open>-1\<close> when the window cannot be created, when the
  function pointers cannot be loaded, when the vertex shader does not compile and when
  the fragment shader does not compile. On each of these paths it has printed exactly one
  diagnostic, the loop test has never been evaluated, and a shader diagnostic carries
  the first 511 characters of the driver's log (the 512-character buffer less its
  terminating zero), hence at most 512. Every run that starts up and ends, ends with
  status \<open>0\<close>, after the loop and without output.
\<close>

theorem exit_status:
  "(window_result e = None \<longrightarrow>
      (\<exists>s. main e = Some (- 1, s)
         \<and> printed s = ''Failed to create GLFW window'' @ endl
         \<and> \<not> list_ex is_loop_test (trace s)))
   \<and> (window_result e \<noteq> None \<and> glad_result e = 0 \<longrightarrow>
      (\<exists>s. main e = Some (- 1, s)
         \<and> printed s = ''Failed to initialize GLAD'' @ endl
         \<and> \<not> list_ex is_loop_test (trace s)))
   \<and> (window_result e \<noteq> None \<and> glad_result e \<noteq> 0 \<and> vertex_compile_status e = 0 \<longrightarrow>
      (\<exists>s. main e = Some (- 1, s)
         \<and> printed s = ''Fatal Error - Compilation of vertex shader failed:'' @ endl
                        @ take 511 (vertex_info_log e) @ endl
         \<and> length (take 511 (vertex_info_log e)) \<le> 512
         \<and> \<not> list_ex is_loop_test (trace s)))
   \<and> (window_result e \<noteq> None \<and> glad_result e \<noteq> 0 \<and> vertex_compile_status e \<noteq> 0
        \<and> fragment_compile_status e = 0 \<longrightarrow>
      (\<exists>s. main e = Some (- 1, s)
         \<and> printed s = ''Fatal Error - Compilation of fragment shader failed:'' @ endl
                        @ take 511 (fragment_info_log e) @ endl
         \<and> length (take 511 (fragment_info_log e)) \<le> 512
         \<and> \<not> list_ex is_loop_test (trace s)))
   \<and> (window_result e \<noteq> None \<and> glad_result e \<noteq> 0 \<and> vertex_compile_status e \<noteq> 0
        \<and> fragment_compile_status e \<noteq> 0 \<longrightarrow>
      (\<forall>r s. main e = Some (r, s) \<longrightarrow>
         r = 0 \<and> printed s = [] \<and> list_ex is_loop_test (trace s)))"
proof -
  have window: "window_result e = None \<longrightarrow>
      (\<exists>s. main e = Some (- 1, s)
         \<and> printed s = ''Failed to create GLFW window'' @ endl
         \<and> \<not> list_ex is_loop_test (trace s))"
    by (simp add: main_window_failure printed_def initial_state_def printed_by_def
        is_loop_test_def)
  have glad: "window_result e \<noteq> None \<and> glad_result e = 0 \<longrightarrow>
      (\<exists>s. main e = Some (- 1, s)
         \<and> printed s = ''Failed to initialize GLAD'' @ endl
         \<and> \<not> list_ex is_loop_test (trace s))"
  proof
    assume "window_result e \<noteq> None \<and> glad_result e = 0"
    then obtain w where "window_result e = Some w" "glad_result e = 0"
      by auto
    then show "\<exists>s. main e = Some (- 1, s)
         \<and> printed s = ''Failed to initialize GLAD'' @ endl
         \<and> \<not> list_ex is_loop_test (trace s)"
      by (simp add: main_glad_failure printed_def initial_state_def printed_by_def
          is_loop_test_def)
  qed
  have vertex: "window_result e \<noteq> None \<and> glad_result e \<noteq> 0 \<and> vertex_compile_status e = 0 \<longrightarrow>
      (\<exists>s. main e = Some (- 1, s)
         \<and> printed s = ''Fatal Error - Compilation of vertex shader failed:'' @ endl
                        @ take 511 (vertex_info_log e) @ endl
         \<and> length (take 511 (vertex_info_log e)) \<le> 512
         \<and> \<not> list_ex is_loop_test (trace s))"
  proof
    assume "window_result e \<noteq> None \<and> glad_result e \<noteq> 0 \<and> vertex_compile_status e = 0"
    then obtain w where "window_result e = Some w" "glad_result e \<noteq> 0"
      "vertex_compile_status e = 0"
      by auto
    then show "\<exists>s. main e = Some (- 1, s)
         \<and> printed s = ''Fatal Error - Compilation of vertex shader failed:'' @ endl
                        @ take 511 (vertex_info_log e) @ endl
         \<and> length (take 511 (vertex_info_log e)) \<le> 512
         \<and> \<not> list_ex is_loop_test (trace s)"
      by (simp add: main_vertex_failure printed_def initial_state_def printed_by_def
          is_loop_test_def)
  qed
  have fragment: "window_result e \<noteq> None \<and> glad_result e \<noteq> 0 \<and> vertex_compile_status e \<noteq> 0
        \<and> fragment_compile_status e = 0 \<longrightarrow>
      (\<exists>s. main e = Some (- 1, s)
         \<and> printed s = ''Fatal Error - Compilation of fragment shader failed:'' @ endl
                        @ take 511 (fragment_info_log e) @ endl
         \<and> length (take 511 (fragment_info_log e)) \<le> 512
         \<and> \<not> list_ex is_loop_test (trace s))"
  proof
    assume "window_result e \<noteq> None \<and> glad_result e \<noteq> 0 \<and> vertex_compile_status e \<noteq> 0
        \<and> fragment_compile_status e = 0"
    then obtain w where "window_result e = Some w" "glad_result e \<noteq> 0"
      "vertex_compile_status e \<noteq> 0" "fragment_compile_status e = 0"
      by auto
    then show "\<exists>s. main e = Some (- 1, s)
         \<and> printed s = ''Fatal Error - Compilation of fragment shader failed:'' @ endl
                        @ take 511 (fragment_info_log e) @ endl
         \<and> length (take 511 (fragment_info_log e)) \<le> 512
         \<and> \<not> list_ex is_loop_test (trace s)"
      by (simp add: main_fragment_failure printed_def initial_state_def printed_by_def
          is_loop_test_def)
  qed
  have normal: "window_result e \<noteq> None \<and> glad_result e \<noteq> 0 \<and> vertex_compile_status e \<noteq> 0
        \<and> fragment_compile_status e \<noteq> 0 \<longrightarrow>
      (\<forall>r s. main e = Some (r, s) \<longrightarrow>
         r = 0 \<and> printed s = [] \<and> list_ex is_loop_test (trace s))"
  proof (intro impI allI)
    fix r s
    assume "window_result e \<noteq> None \<and> glad_result e \<noteq> 0 \<and> vertex_compile_status e \<noteq> 0
        \<and> fragment_compile_status e \<noteq> 0"
    then obtain w where ok: "window_result e = Some w" "glad_result e \<noteq> 0"
      "vertex_compile_status e \<noteq> 0" "fragment_compile_status e \<noteq> 0"
      by auto
    assume "main e = Some (r, s)"
    from main_Some[OF ok this] obtain n where r: "r = 0"
      and s: "s = emits (shutdown_calls e) (emit (GlfwWindowShouldClose w)
             ((iteration e w (program_name e) (vao_name e) ^^ n)
                (emits (startup_calls e w) initial_state)))"
      by blast
    have "printed s = []"
      unfolding printed_def s trace_run
      by (simp add: filter_startup_calls filter_frames shutdown_calls_def printed_by_def)
    moreover have "list_ex is_loop_test (trace s)"
      unfolding s trace_run by (simp add: is_loop_test_def)
    ultimately show "r = 0 \<and> printed s = [] \<and> list_ex is_loop_test (trace s)"
      using r by simp
  qed
  show ?thesis
    by (rule conjI[OF window conjI[OF glad conjI[OF vertex conjI[OF fragment normal]]]])
qed

theorem exit_status_witness:
  "(\<exists>s. main (sample_env\<lparr>window_result := None\<rparr>) = Some (- 1, s)
        \<and> printed s = ''Failed to create GLFW window'' @ endl)
   \<and> (\<exists>s. main (sample_env\<lparr>glad_result := 0\<rparr>) = Some (- 1, s)
        \<and> printed s = ''Failed to initialize GLAD'' @ endl)
   \<and> (\<exists>s. main (sample_env\<lparr>vertex_compile_status := 0,
                              vertex_info_log := ''0(4) : error C0000''\<rparr>) = Some (- 1, s)
        \<and> printed s = ''Fatal Error - Compilation of vertex shader failed:'' @ endl
                       @ ''0(4) : error C0000'' @ endl)
   \<and> (\<exists>s. main (sample_env\<lparr>fragment_compile_status := 0,
                              fragment_info_log := replicate 600 (CHR ''x'')\<rparr>) = Some (- 1, s)
        \<and> printed s = ''Fatal Error - Compilation of fragment shader failed:'' @ endl
                       @ replicate 511 (CHR ''x'') @ endl)
   \<and> (\<exists>s. main sample_env = Some (0, s) \<and> printed s = [])"
proof (intro conjI)
  have "window_result (sample_env\<lparr>window_result := None\<rparr>) = None"
    by simp
  with exit_status[of "sample_env\<lparr>window_result := None\<rparr>"]
  show "\<exists>s. main (sample_env\<lparr>window_result := None\<rparr>) = Some (- 1, s)
        \<and> printed s = ''Failed to create GLFW window'' @ endl"
    by blast
next
  have "window_result (sample_env\<lparr>glad_result := 0\<rparr>) \<noteq> None
      \<and> glad_result (sample_env\<lparr>glad_result := 0\<rparr>) = 0"
    by (simp add: sample_env_def)
  with exit_status[of "sample_env\<lparr>glad_result := 0\<rparr>"]
  show "\<exists>s. main (sample_env\<lparr>glad_result := 0\<rparr>) = Some (- 1, s)
        \<and> printed s = ''Failed to initialize GLAD'' @ endl"
    by blast
next
  define e1 where "e1 = sample_env\<lparr>vertex_compile_status := 0,
                              vertex_info_log := ''0(4) : error C0000''\<rparr>"
  have "window_result e1 \<noteq> None \<and> glad_result e1 \<noteq> 0 \<and> vertex_compile_status e1 = 0"
    by (simp add: e1_def sample_env_def)
  with exit_status[of e1]
  obtain s where "main e1 = Some (- 1, s)"
    "printed s = ''Fatal Error - Compilation of vertex shader failed:'' @ endl
                       @ take 511 (vertex_info_log e1) @ endl"
    by blast
  moreover have "take 511 (vertex_info_log e1) = ''0(4) : error C0000''"
    by (simp add: e1_def)
  ultimately show "\<exists>s. main (sample_env\<lparr>vertex_compile_status := 0,
                              vertex_info_log := ''0(4) : error C0000''\<rparr>) = Some (- 1, s)
        \<and> printed s = ''Fatal Error - Compilation of vertex shader failed:'' @ endl
                       @ ''0(4) : error C0000'' @ endl"
    unfolding e1_def by (metis (no_types))
next
  define e2 where "e2 = sample_env\<lparr>fragment_compile_status := 0,
                              fragment_info_log := replicate 600 (CHR ''x'')\<rparr>"
  have "window_result e2 \<noteq> None \<and> glad_result e2 \<noteq> 0 \<and> vertex_compile_status e2 \<noteq> 0
      \<and> fragment_compile_status e2 = 0"
    by (simp add: e2_def sample_env_def)
  with exit_status[of e2]
  obtain s where "main e2 = Some (- 1, s)"
    "printed s = ''Fatal Error - Compilation of fragment shader failed:'' @ endl
                       @ take 511 (fragment_info_log e2) @ endl"
    by blast
  moreover have "take 511 (fragment_info_log e2) = replicate 511 (CHR ''x'')"
    by (simp add: e2_def)
  ultimately show "\<exists>s. main (sample_env\<lparr>fragment_compile_status := 0,
                              fragment_info_log := replicate 600 (CHR ''x'')\<rparr>) = Some (- 1, s)
        \<and> printed s = ''Fatal Error - Compilation of fragment shader failed:'' @ endl
                       @ replicate 511 (CHR ''x'') @ endl"
    unfolding e2_def by (metis (no_types))
next
  have ok: "window_result sample_env \<noteq> None \<and> glad_result sample_env \<noteq> 0
      \<and> vertex_compile_status sample_env \<noteq> 0 \<and> fragment_compile_status sample_env \<noteq> 0"
    by (simp add: sample_env_def)
  with exit_status[of sample_env]
  have "\<forall>r s. main sample_env = Some (r, s) \<longrightarrow>
          r = 0 \<and> printed s = [] \<and> list_ex is_loop_test (trace s)"
    by blast
  with main_sample_env show "\<exists>s. main sample_env = Some (0, s) \<and> printed s = []"
    by blast
qed

subsection \<open>C3: the vertex buffer\<close>

text \<open>
  C3. After the upload and any number \<open>n\<close> of loop iterations, the data store of the
  vertex buffer holds the nine floats \<open>-0.5, -0.5, 0, 0.5, -0.5, 0, 0, 0.5, 0\<close>, and
  the only call since the upload began that writes a buffer is the one
  \<^verbatim>\<open>glBufferData\<close> of these nine floats (36 bytes). In a whole run that ends,
  that call is the only buffer write when the run ends normally, and there is none when
  the run ends on a failure path, which exits before the upload.
\<close>

theorem vertex_buffer_written_once:
  "buffer_data ((iteration e w p vao ^^ n) (upload_geometry vao vbo s)) vbo =
     Some [- 0.5, - 0.5, 0, 0.5, - 0.5, 0, 0, 0.5, 0]
   \<and> filter is_buffer_write
       (drop (length (trace s))
          (trace ((iteration e w p vao ^^ n) (upload_geometry vao vbo s)))) =
     [GlBufferData GL_ARRAY_BUFFER 36 [- 0.5, - 0.5, 0, 0.5, - 0.5, 0, 0, 0.5, 0]
        GL_STATIC_DRAW]
   \<and> (\<forall>r t. main e = Some (r, t) \<longrightarrow>
        filter is_buffer_write (trace t) =
          (if r = 0
           then [GlBufferData GL_ARRAY_BUFFER 36 [- 0.5, - 0.5, 0, 0.5, - 0.5, 0, 0, 0.5, 0]
                   GL_STATIC_DRAW]
           else []))"
proof -
  have store: "buffer_data ((iteration e w p vao ^^ n) (upload_geometry vao vbo s)) vbo =
     Some [- 0.5, - 0.5, 0, 0.5, - 0.5, 0, 0, 0.5, 0]"
    by (simp only: buffer_data_iterations buffer_data_upload_geometry)
  have writes: "filter is_buffer_write
       (drop (length (trace s))
          (trace ((iteration e w p vao ^^ n) (upload_geometry vao vbo s)))) =
     [GlBufferData GL_ARRAY_BUFFER 36 [- 0.5, - 0.5, 0, 0.5, - 0.5, 0, 0, 0.5, 0]
        GL_STATIC_DRAW]"
    by (simp add: trace_iterations trace_upload_geometry filter_frames_shifted
        is_buffer_write_def)
  have run: "filter is_buffer_write (trace t) =
          (if r = 0
           then [GlBufferData GL_ARRAY_BUFFER 36 [- 0.5, - 0.5, 0, 0.5, - 0.5, 0, 0, 0.5, 0]
                   GL_STATIC_DRAW]
           else [])" if m: "main e = Some (r, t)" for r t
  proof (cases e rule: main_cases)
    case window
    with m show ?thesis
      by (auto simp: main_window_failure initial_state_def is_buffer_write_def)
  next
    case (glad w)
    with m show ?thesis
      by (auto simp: main_glad_failure initial_state_def is_buffer_write_def)
  next
    case (vertex w)
    with m show ?thesis
      by (auto simp: main_vertex_failure initial_state_def is_buffer_write_def)
  next
    case (fragment w)
    with m show ?thesis
      by (auto simp: main_fragment_failure initial_state_def is_buffer_write_def)
  next
    case (started w)
    from main_Some[OF started m] have r: "r = 0"
      by (rule conjunct1)
    with m have "main e = Some (0, t)"
      by simp
    then obtain w' k where "trace t = startup_calls e w'
           @ concat (map (frame_calls e w' (program_name e) (vao_name e)) [0..<k])
           @ GlfwWindowShouldClose w' # shutdown_calls e"
      by (rule main_started)
    then show ?thesis
      by (simp add: r filter_startup_calls filter_frames shutdown_calls_def
          is_buffer_write_def)
  qed
  from store writes run show ?thesis
    by (intro conjI allI impI)
qed

theorem vertex_buffer_written_once_witness:
  "\<exists>t. main sample_env = Some (0, t)
     \<and> filter is_buffer_write (trace t) =
         [GlBufferData GL_ARRAY_BUFFER 36 [- 0.5, - 0.5, 0, 0.5, - 0.5, 0, 0, 0.5, 0]
            GL_STATIC_DRAW]"
proof -
  have "\<forall>r t. main sample_env = Some (r, t) \<longrightarrow>
        filter is_buffer_write (trace t) =
          (if r = 0
           then [GlBufferData GL_ARRAY_BUFFER 36 [- 0.5, - 0.5, 0, 0.5, - 0.5, 0, 0, 0.5, 0]
                   GL_STATIC_DRAW]
           else [])"
    by (rule vertex_buffer_written_once[where e = sample_env, THEN conjunct2, THEN conjunct2])
  then have run: "main sample_env = Some (0, t) \<Longrightarrow>
        filter is_buffer_write (trace t) =
          [GlBufferData GL_ARRAY_BUFFER 36 [- 0.5, - 0.5, 0, 0.5, - 0.5, 0, 0, 0.5, 0]
             GL_STATIC_DRAW]" for t
    by simp
  from main_sample_env obtain t where t: "main sample_env = Some (0, t)"
    by (rule that)
  from t run[OF t] show ?thesis
    by (intro exI conjI)
qed

subsection \<open>C4: the escape key ends the loop\<close>

text \<open>
  C4. If the loop is still running when the input check of iteration \<open>n\<close> (counted
  from \<open>0\<close>) sees the escape key down, then the process ends with status \<open>0\<close>,
  and after that input check it issues only the rest of iteration \<open>n\<close>, the loop
  test that leaves the loop, and the shutdown calls: there are \<open>n + 1\<close> input checks
  and \<open>n + 1\<close> draw calls in the whole run, the last draw call being the one of
  iteration \<open>n\<close> itself, before the loop test that leaves the loop.
\<close>

theorem escape_closes_loop:
  assumes "window_result e = Some w" and "glad_result e \<noteq> 0"
    and "vertex_compile_status e \<noteq> 0" and "fragment_compile_status e \<noteq> 0"
    and "\<forall>j<n. escape_key e j \<noteq> GLFW_PRESS \<and> \<not> close_requested e j"
    and "escape_key e n = GLFW_PRESS"
  shows "\<exists>pre s. main e = Some (0, s)
    \<and> trace s =
        pre
        @ [GlfwGetKey w GLFW_KEY_ESCAPE,
           GlfwSetWindowShouldClose w True,
           GlClearColor 0.2 0.3 0.3 1.0,
           GlClear GL_COLOR_BUFFER_BIT,
           GlUseProgram (program_name e),
           GlBindVertexArray (vao_name e),
           GlDrawArrays GL_TRIANGLES 0 3,
           GlfwSwapBuffers w,
           GlfwPollEvents]
        @ map (\<lambda>(width, height). GlViewport 0 0 width height) (resize_events e n)
        @ [GlfwWindowShouldClose w,
           GlDeleteVertexArrays (vao_name e),
           GlDeleteBuffers (vbo_name e),
           GlDeleteProgram (program_name e),
           GlfwTerminate]
    \<and> length (filter is_input_check (trace s)) = Suc n
    \<and> length (filter is_draw_call (trace s)) = Suc n"
proof -
  define s where "s = emits (shutdown_calls e) (emit (GlfwWindowShouldClose w)
             ((iteration e w (program_name e) (vao_name e) ^^ Suc n)
                (emits (startup_calls e w) initial_state)))"
  define pre where "pre = startup_calls e w
     @ concat (map (frame_calls e w (program_name e) (vao_name e)) [0..<n])
     @ [GlfwWindowShouldClose w]"
  have "\<forall>j<n. \<not> closes e j" "closes e n"
    using assms(5,6) by (simp_all add: closes_def)
  then have m: "main e = Some (0, s)"
    unfolding s_def by (rule main_closes[OF assms(1-4)])
  have t: "trace s = startup_calls e w
     @ concat (map (frame_calls e w (program_name e) (vao_name e)) [0..<Suc n])
     @ GlfwWindowShouldClose w # shutdown_calls e"
    unfolding s_def by (rule trace_run)
  have 1: "trace s =
        pre
        @ [GlfwGetKey w GLFW_KEY_ESCAPE,
           GlfwSetWindowShouldClose w True,
           GlClearColor 0.2 0.3 0.3 1.0,
           GlClear GL_COLOR_BUFFER_BIT,
           GlUseProgram (program_name e),
           GlBindVertexArray (vao_name e),
           GlDrawArrays GL_TRIANGLES 0 3,
           GlfwSwapBuffers w,
           GlfwPollEvents]
        @ map (\<lambda>(width, height). GlViewport 0 0 width height) (resize_events e n)
        @ [GlfwWindowShouldClose w,
           GlDeleteVertexArrays (vao_name e),
           GlDeleteBuffers (vbo_name e),
           GlDeleteProgram (program_name e),
           GlfwTerminate]"
    unfolding t pre_def using assms(6) by (simp add: frame_calls_def shutdown_calls_def)
  have 2: "length (filter is_input_check (trace s)) = Suc n"
    unfolding t
    by (simp only: filter_append length_append count_frames)
       (simp add: startup_calls_def shutdown_calls_def is_input_check_def)
  have 3: "length (filter is_draw_call (trace s)) = Suc n"
    unfolding t
    by (simp only: filter_append length_append count_frames)
       (simp add: startup_calls_def shutdown_calls_def is_draw_call_def)
  show ?thesis
    by (rule exI[of _ pre], rule exI[of _ s]) (intro conjI m 1 2 3)
qed

theorem escape_closes_loop_witness:
  "window_result sample_env = Some 7 \<and> glad_result sample_env \<noteq> 0
   \<and> vertex_compile_status sample_env \<noteq> 0 \<and> fragment_compile_status sample_env \<noteq> 0
   \<and> escape_key sample_env 0 \<noteq> GLFW_PRESS \<and> \<not> close_requested sample_env 0
   \<and> escape_key sample_env 1 = GLFW_PRESS
   \<and> (\<exists>s. main sample_env = Some (0, s)
         \<and> length (filter is_input_check (trace s)) = 2
         \<and> length (filter is_draw_call (trace s)) = 2)"
proof -
  have h: "window_result sample_env = Some 7" "glad_result sample_env \<noteq> 0"
    "vertex_compile_status sample_env \<noteq> 0" "fragment_compile_status sample_env \<noteq> 0"
    "\<forall>j<1. escape_key sample_env j \<noteq> GLFW_PRESS \<and> \<not> close_requested sample_env j"
    "escape_key sample_env 1 = GLFW_PRESS"
    by (simp_all add: sample_env_def)
  from escape_closes_loop[OF h] obtain pre s where
    "main sample_env = Some (0, s)"
    "trace s =
        pre
        @ [GlfwGetKey 7 GLFW_KEY_ESCAPE,
           GlfwSetWindowShouldClose 7 True,
           GlClearColor 0.2 0.3 0.3 1.0,
           GlClear GL_COLOR_BUFFER_BIT,
           GlUseProgram (program_name sample_env),
           GlBindVertexArray (vao_name sample_env),
           GlDrawArrays GL_TRIANGLES 0 3,
           GlfwSwapBuffers 7,
           GlfwPollEvents]
        @ map (\<lambda>(width, height). GlViewport 0 0 width height) (resize_events sample_env 1)
        @ [GlfwWindowShouldClose 7,
           GlDeleteVertexArrays (vao_name sample_env),
           GlDeleteBuffers (vbo_name sample_env),
           GlDeleteProgram (program_name sample_env),
           GlfwTerminate]"
    "length (filter is_input_check (trace s)) = Suc 1"
    "length (filter is_draw_call (trace s)) = Suc 1"
    by (elim exE conjE)
  then have "main sample_env = Some (0, s)
         \<and> length (filter is_input_check (trace s)) = 2
         \<and> length (filter is_draw_call (trace s)) = 2"
    by (simp only: Suc_1 simp_thms)
  then have "\<exists>s. main sample_env = Some (0, s)
         \<and> length (filter is_input_check (trace s)) = 2
         \<and> length (filter is_draw_call (trace s)) = 2"
    by (rule exI)
  with h(1-4,6) show ?thesis
    by (simp add: sample_env_def)
qed

subsection \<open>C5: the link status\<close>

text \<open>
  C5. Nothing the program does depends on the link status: the whole run and
  \<^verbatim>\<open>get_shader_program\<close> are the same whatever the link step reports. When both
  shaders compile, \<^verbatim>\<open>get_shader_program\<close> returns the program name without
  printing, \<open>main\<close> hands that name to the render loop, and every iteration of the
  loop activates it with \<^verbatim>\<open>glUseProgram\<close>.
\<close>

theorem link_status_unchecked:
  "main (e\<lparr>link_status := l\<rparr>) = main e
   \<and> get_shader_program (e\<lparr>link_status := l\<rparr>) s = get_shader_program e s
   \<and> (vertex_compile_status e \<noteq> 0 \<and> fragment_compile_status e \<noteq> 0 \<longrightarrow>
        (\<exists>s'. get_shader_program e s = Inr (program_name e, s') \<and> printed s' = printed s))
   \<and> (window_result e = Some w \<and> glad_result e \<noteq> 0 \<and> vertex_compile_status e \<noteq> 0
        \<and> fragment_compile_status e \<noteq> 0 \<longrightarrow>
        main e =
          map_option (\<lambda>t. (0, shutdown (vao_name e) (vbo_name e) (program_name e) t))
            (render_loop e w (program_name e) (vao_name e)
               (emits (startup_calls e w) initial_state)))
   \<and> GlUseProgram p \<in> set (drop (length (trace s)) (trace (iteration e w p v s)))"
proof (intro conjI impI)
  show "get_shader_program (e\<lparr>link_status := l\<rparr>) s = get_shader_program e s"
    by (rule get_shader_program_link_status)
  show "main (e\<lparr>link_status := l\<rparr>) = main e"
    by (simp add: main_def init_window_link_status get_shader_program_link_status
        render_loop_link_status Let_def split: sum.splits prod.splits)
  show "\<exists>s'. get_shader_program e s = Inr (program_name e, s') \<and> printed s' = printed s"
    if "vertex_compile_status e \<noteq> 0 \<and> fragment_compile_status e \<noteq> 0"
    using that by (simp add: get_shader_program_ok printed_def printed_by_def)
  show "main e =
          map_option (\<lambda>t. (0, shutdown (vao_name e) (vbo_name e) (program_name e) t))
            (render_loop e w (program_name e) (vao_name e)
               (emits (startup_calls e w) initial_state))"
    if "window_result e = Some w \<and> glad_result e \<noteq> 0 \<and> vertex_compile_status e \<noteq> 0
        \<and> fragment_compile_status e \<noteq> 0"
    using that by (simp add: main_startup shutdown_def shutdown_calls_def)
  show "GlUseProgram p \<in> set (drop (length (trace s)) (trace (iteration e w p v s)))"
    by (simp add: trace_iteration frame_calls_def)
qed

theorem link_status_unchecked_witness:
  "main (sample_env\<lparr>link_status := 0\<rparr>) = main sample_env
   \<and> vertex_compile_status sample_env \<noteq> 0 \<and> fragment_compile_status sample_env \<noteq> 0
   \<and> window_result sample_env = Some 7 \<and> glad_result sample_env \<noteq> 0
   \<and> (\<exists>s'. get_shader_program (sample_env\<lparr>link_status := 0\<rparr>) initial_state = Inr (3, s')
          \<and> printed s' = [])
   \<and> (\<exists>t. main (sample_env\<lparr>link_status := 0\<rparr>) = Some (0, t))"
proof -
  have h: "vertex_compile_status sample_env \<noteq> 0" "fragment_compile_status sample_env \<noteq> 0"
    "window_result sample_env = Some 7" "glad_result sample_env \<noteq> 0"
    "program_name sample_env = 3"
    by (simp_all add: sample_env_def)
  have p: "printed initial_state = []"
    by (simp add: printed_def initial_state_def)
  note T = link_status_unchecked
    [where e = sample_env and l = 0 and s = initial_state and w = 7 and p = 3 and v = 1]
  have a: "main (sample_env\<lparr>link_status := 0\<rparr>) = main sample_env"
    using T by (rule conjunct1)
  have b: "get_shader_program (sample_env\<lparr>link_status := 0\<rparr>) initial_state
             = get_shader_program sample_env initial_state"
    using T by blast
  have "\<exists>s'. get_shader_program sample_env initial_state = Inr (program_name sample_env, s')
          \<and> printed s' = printed initial_state"
    using T h(1,2) by blast
  then have c: "\<exists>s'. get_shader_program (sample_env\<lparr>link_status := 0\<rparr>) initial_state
                       = Inr (3, s') \<and> printed s' = []"
    unfolding b h(5) p .
  have d: "\<exists>t. main (sample_env\<lparr>link_status := 0\<rparr>) = Some (0, t)"
    unfolding a main_sample_env by blast
  from a c d h(1-4) show ?thesis
    by blast
qed

subsection \<open>C6: the viewport follows the framebuffer\<close>

text \<open>
  C6. The resize callback passes the width and height it receives to
  \<^verbatim>\<open>glViewport\<close> unchanged, with origin \<open>(0, 0)\<close>, and the event poll of a
  frame does so for every framebuffer size event delivered, in order.
\<close>

theorem viewport_follows_framebuffer:
  "trace (framebuffer_size_callback w width height s) = trace s @ [GlViewport 0 0 width height]
   \<and> trace (poll_events e w s) =
       trace s @ GlfwPollEvents
         # map (\<lambda>(width, height). GlViewport 0 0 width height) (resize_events e (polls s))"
proof (intro conjI)
  show "trace (framebuffer_size_callback w width height s) =
          trace s @ [GlViewport 0 0 width height]"
    by (simp add: framebuffer_size_callback_def)
  show "trace (poll_events e w s) =
       trace s @ GlfwPollEvents
         # map (\<lambda>(width, height). GlViewport 0 0 width height) (resize_events e (polls s))"
    by (simp add: poll_events_def Let_def callbacks_trace)
qed

subsection \<open>C7: shutdown\<close>

text \<open>
  C7. A run that ends with status \<open>0\<close> ends with the loop test that leaves the loop
  and then the calls \<^verbatim>\<open>glDeleteVertexArrays\<close>, \<^verbatim>\<open>glDeleteBuffers\<close>,
  \<^verbatim>\<open>glDeleteProgram\<close>, \<^verbatim>\<open>glfwTerminate\<close>, in this order, on the vertex
  array, the buffer and the program of the run. No releasing call comes before them, so
  each happens exactly once and \<^verbatim>\<open>glfwTerminate\<close> is last; and no call after a
  releasing call names an object that the releasing call names.
\<close>

theorem shutdown_order:
  assumes "main e = Some (0, s)"
  shows "\<exists>pre w. trace s =
           pre @ [GlfwWindowShouldClose w,
                  GlDeleteVertexArrays (vao_name e),
                  GlDeleteBuffers (vbo_name e),
                  GlDeleteProgram (program_name e),
                  GlfwTerminate]
    \<and> filter is_release pre = []
    \<and> (\<forall>before c after. trace s = before @ c # after \<and> is_release c \<longrightarrow>
         set (refs c) \<inter> set (concat (map refs after)) = {})"
proof -
  from assms obtain w n where t: "trace s = startup_calls e w
           @ concat (map (frame_calls e w (program_name e) (vao_name e)) [0..<n])
           @ GlfwWindowShouldClose w # shutdown_calls e"
    by (rule main_started)
  define body where "body = startup_calls e w
           @ concat (map (frame_calls e w (program_name e) (vao_name e)) [0..<n])"
  define pre where "pre = body @ [GlfwWindowShouldClose w]"
  have 0: "trace s =
           body @ [GlfwWindowShouldClose w,
                   GlDeleteVertexArrays (vao_name e),
                   GlDeleteBuffers (vbo_name e),
                   GlDeleteProgram (program_name e),
                   GlfwTerminate]"
    unfolding t body_def by (simp add: shutdown_calls_def)
  have 1: "trace s =
           pre @ [GlDeleteVertexArrays (vao_name e),
                  GlDeleteBuffers (vbo_name e),
                  GlDeleteProgram (program_name e),
                  GlfwTerminate]"
    unfolding 0 pre_def by simp
  have body: "filter is_release body = []"
    unfolding body_def by (simp add: filter_startup_calls filter_frames)
  then have 2: "filter is_release pre = []"
    unfolding pre_def by (simp add: is_release_def)
  have 3: "set (refs c) \<inter> set (concat (map refs after)) = {}"
    if split: "trace s = before @ c # after" and c: "is_release c" for before c after
  proof -
    from split have "pre @ [GlDeleteVertexArrays (vao_name e),
                  GlDeleteBuffers (vbo_name e),
                  GlDeleteProgram (program_name e),
                  GlfwTerminate] = before @ c # after"
      by (simp only: 1)
    with 2 c obtain us where "[GlDeleteVertexArrays (vao_name e),
                  GlDeleteBuffers (vbo_name e),
                  GlDeleteProgram (program_name e),
                  GlfwTerminate] = us @ c # after"
      by (blast dest: split_in_suffix)
    then consider
        "c = GlDeleteVertexArrays (vao_name e)"
        "after = [GlDeleteBuffers (vbo_name e), GlDeleteProgram (program_name e), GlfwTerminate]"
      | "c = GlDeleteBuffers (vbo_name e)"
        "after = [GlDeleteProgram (program_name e), GlfwTerminate]"
      | "c = GlDeleteProgram (program_name e)" "after = [GlfwTerminate]"
      | "c = GlfwTerminate" "after = []"
      by (auto simp: Cons_eq_append_conv)
    then show ?thesis
      by cases (simp_all add: refs_def)
  qed
  show ?thesis
    by (rule exI[of _ body], rule exI[of _ w])
       (intro conjI allI impI 0 body, elim conjE, rule 3)
qed

theorem shutdown_order_witness:
  "\<exists>s pre w. main sample_env = Some (0, s)
     \<and> trace s = pre @ [GlfwWindowShouldClose w, GlDeleteVertexArrays 1, GlDeleteBuffers 1,
                        GlDeleteProgram 3, GlfwTerminate]
     \<and> filter is_release pre = []"
proof -
  from main_sample_env obtain s where s: "main sample_env = Some (0, s)"
    by (rule that)
  from shutdown_order[OF s] obtain pre w where
    "trace s =
           pre @ [GlfwWindowShouldClose w,
                  GlDeleteVertexArrays (vao_name sample_env),
                  GlDeleteBuffers (vbo_name sample_env),
                  GlDeleteProgram (program_name sample_env),
                  GlfwTerminate]"
    "filter is_release pre = []"
    by (elim exE conjE)
  moreover have "vao_name sample_env = 1" "vbo_name sample_env = 1" "program_name sample_env = 3"
    by (simp_all add: sample_env_def)
  ultimately have "main sample_env = Some (0, s)
     \<and> trace s = pre @ [GlfwWindowShouldClose w, GlDeleteVertexArrays 1, GlDeleteBuffers 1,
                        GlDeleteProgram 3, GlfwTerminate]
     \<and> filter is_release pre = []"
    using s by simp
  then show ?thesis
    by (intro exI)
qed

subsection \<open>C8: the two setup failures\<close>

text \<open>
  C8, as stated, fails: when the window cannot be created the program does clean up, by
  calling \<^verbatim>\<open>glfwTerminate\<close>, and when the function pointers cannot be loaded
  it does not, so the two paths are not handled alike.
\<close>

theorem setup_failures_differ:
  "released (sample_env\<lparr>window_result := None\<rparr>) = Some [GlfwTerminate]
   \<and> released (sample_env\<lparr>glad_result := 0\<rparr>) = Some []"
proof
  show "released (sample_env\<lparr>window_result := None\<rparr>) = Some [GlfwTerminate]"
    by (simp add: released_def main_window_failure initial_state_def is_release_def)
  have "window_result (sample_env\<lparr>glad_result := 0\<rparr>) = Some 7"
    "glad_result (sample_env\<lparr>glad_result := 0\<rparr>) = 0"
    by (simp_all add: sample_env_def)
  then show "released (sample_env\<lparr>glad_result := 0\<rparr>) = Some []"
    by (simp add: released_def main_glad_failure initial_state_def is_release_def)
qed

text \<open>
  C8, amended. Both setup failure paths print a one-line diagnostic and end the process
  with status \<open>-1\<close>. When the window cannot be created, the program calls
  \<^verbatim>\<open>glfwTerminate\<close> after the diagnostic and before exiting. When the function
  pointers cannot be loaded, it exits right after the diagnostic and releases nothing:
  neither the window nor the windowing system.
\<close>

theorem setup_failure_paths:
  "(window_result e = None \<longrightarrow>
      (\<exists>s. main e = Some (- 1, s)
         \<and> trace s =
             [GlfwInit,
              GlfwWindowHint GLFW_CONTEXT_VERSION_MAJOR (Num 3),
              GlfwWindowHint GLFW_CONTEXT_VERSION_MINOR (Num 3),
              GlfwWindowHint GLFW_OPENGL_PROFILE GLFW_OPENGL_CORE_PROFILE]
             @ (if apple e then [GlfwWindowHint GLFW_OPENGL_FORWARD_COMPAT GL_TRUE] else [])
             @ [GlfwCreateWindow 800 600 ''OpenGL Template'',
                StdOut (''Failed to create GLFW window'' @ endl),
                GlfwTerminate]
         \<and> released e = Some [GlfwTerminate]))
   \<and> (window_result e = Some w \<and> glad_result e = 0 \<longrightarrow>
      (\<exists>s. main e = Some (- 1, s)
         \<and> trace s =
             [GlfwInit,
              GlfwWindowHint GLFW_CONTEXT_VERSION_MAJOR (Num 3),
              GlfwWindowHint GLFW_CONTEXT_VERSION_MINOR (Num 3),
              GlfwWindowHint GLFW_OPENGL_PROFILE GLFW_OPENGL_CORE_PROFILE]
             @ (if apple e then [GlfwWindowHint GLFW_OPENGL_FORWARD_COMPAT GL_TRUE] else [])
             @ [GlfwCreateWindow 800 600 ''OpenGL Template'',
                GlfwMakeContextCurrent w,
                GladLoadGLLoader,
                StdOut (''Failed to initialize GLAD'' @ endl)]
         \<and> released e = Some []))"
  by (simp add: released_def main_window_failure main_glad_failure initial_state_def
      is_release_def)

theorem setup_failure_paths_witness:
  "window_result (sample_env\<lparr>window_result := None\<rparr>) = None
   \<and> (\<exists>s. main (sample_env\<lparr>window_result := None\<rparr>) = Some (- 1, s))
   \<and> released (sample_env\<lparr>window_result := None\<rparr>) = Some [GlfwTerminate]
   \<and> window_result (sample_env\<lparr>glad_result := 0\<rparr>) = Some 7
   \<and> glad_result (sample_env\<lparr>glad_result := 0\<rparr>) = 0
   \<and> (\<exists>s. main (sample_env\<lparr>glad_result := 0\<rparr>) = Some (- 1, s))
   \<and> released (sample_env\<lparr>glad_result := 0\<rparr>) = Some []"
proof -
  have a: "window_result (sample_env\<lparr>window_result := None\<rparr>) = None"
    by simp
  have b: "window_result (sample_env\<lparr>glad_result := 0\<rparr>) = Some 7
      \<and> glad_result (sample_env\<lparr>glad_result := 0\<rparr>) = 0"
    by (simp add: sample_env_def)
  from setup_failure_paths[where e = "sample_env\<lparr>window_result := None\<rparr>"] a
  have 1: "(\<exists>s. main (sample_env\<lparr>window_result := None\<rparr>) = Some (- 1, s))
      \<and> released (sample_env\<lparr>window_result := None\<rparr>) = Some [GlfwTerminate]"
    by blast
  from setup_failure_paths[where e = "sample_env\<lparr>glad_result := 0\<rparr>" and w = 7] b
  have 2: "(\<exists>s. main (sample_env\<lparr>glad_result := 0\<rparr>) = Some (- 1, s))
      \<and> released (sample_env\<lparr>glad_result := 0\<rparr>) = Some []"
    by blast
  from a b 1 2 show ?thesis
    by (intro conjI) (elim conjE, assumption)+
qed

subsection \<open>C9: the fragment shader is checked after linking\<close>

text \<open>
  C9. When the fragment shader fails to compile (and the vertex shader compiled), the
  program is still created, both shaders attached, the program linked and activated;
  only then is the compile status of the fragment shader read, the log fetched and
  printed, and the process ended with status \<open>-1\<close>.
\<close>

theorem fragment_status_checked_after_link:
  assumes "vertex_compile_status e \<noteq> 0" and "fragment_compile_status e = 0"
  shows "\<exists>s'. get_shader_program e s = Inl (- 1, s')
    \<and> trace s' =
        trace s
        @ [GlCreateShader GL_VERTEX_SHADER,
           GlShaderSource (vertex_shader_name e) vertex_shader_source,
           GlCompileShader (vertex_shader_name e),
           GlGetShaderiv (vertex_shader_name e) GL_COMPILE_STATUS,
           GlCreateShader GL_FRAGMENT_SHADER,
           GlShaderSource (fragment_shader_name e) fragment_shader_source,
           GlCompileShader (fragment_shader_name e),
           GlCreateProgram,
           GlAttachShader (program_name e) (vertex_shader_name e),
           GlAttachShader (program_name e) (fragment_shader_name e),
           GlLinkProgram (program_name e),
           GlUseProgram (program_name e),
           GlGetShaderiv (fragment_shader_name e) GL_COMPILE_STATUS,
           GlGetShaderInfoLog (fragment_shader_name e) 512,
           StdOut (''Fatal Error - Compilation of fragment shader failed:'' @ endl
                   @ take 511 (fragment_info_log e) @ endl)]"
  using assms by (simp add: get_shader_program_def Let_def info_log_def)

theorem fragment_status_checked_after_link_witness:
  "vertex_compile_status (sample_env\<lparr>fragment_compile_status := 0\<rparr>) \<noteq> 0
   \<and> fragment_compile_status (sample_env\<lparr>fragment_compile_status := 0\<rparr>) = 0
   \<and> (\<exists>s'. get_shader_program (sample_env\<lparr>fragment_compile_status := 0\<rparr>) initial_state
              = Inl (- 1, s')
         \<and> take 4 (drop 10 (trace s')) =
             [GlLinkProgram 3, GlUseProgram 3, GlGetShaderiv 2 GL_COMPILE_STATUS,
              GlGetShaderInfoLog 2 512])"
proof -
  have h: "vertex_compile_status (sample_env\<lparr>fragment_compile_status := 0\<rparr>) \<noteq> 0"
    "fragment_compile_status (sample_env\<lparr>fragment_compile_status := 0\<rparr>) = 0"
    by (simp_all add: sample_env_def)
  from fragment_status_checked_after_link[OF h, of initial_state]
  obtain s' where
    "get_shader_program (sample_env\<lparr>fragment_compile_status := 0\<rparr>) initial_state
       = Inl (- 1, s')"
    "take 4 (drop 10 (trace s')) =
       [GlLinkProgram 3, GlUseProgram 3, GlGetShaderiv 2 GL_COMPILE_STATUS,
        GlGetShaderInfoLog 2 512]"
    by (auto simp: initial_state_def sample_env_def)
  with h show ?thesis by blast
qed

subsection \<open>C10: the result of glfwInit\<close>

text \<open>
  C10. Nothing the program does depends on what \<^verbatim>\<open>glfwInit\<close> returns: the
  whole run and \<^verbatim>\<open>init_window\<close> are the same for every return value, and
  \<^verbatim>\<open>init_window\<close> always goes on to set the window hints and to call
  \<^verbatim>\<open>glfwCreateWindow\<close>.
\<close>

theorem glfw_init_unchecked:
  "main (e\<lparr>glfw_init_result := r\<rparr>) = main e
   \<and> init_window (e\<lparr>glfw_init_result := r\<rparr>) s = init_window e s
   \<and> (\<exists>rest. trace (final_state (init_window e s)) =
        trace s
        @ [GlfwInit,
           GlfwWindowHint GLFW_CONTEXT_VERSION_MAJOR (Num 3),
           GlfwWindowHint GLFW_CONTEXT_VERSION_MINOR (Num 3),
           GlfwWindowHint GLFW_OPENGL_PROFILE GLFW_OPENGL_CORE_PROFILE]
        @ (if apple e then [GlfwWindowHint GLFW_OPENGL_FORWARD_COMPAT GL_TRUE] else [])
        @ [GlfwCreateWindow 800 600 ''OpenGL Template'']
        @ rest)"
proof (intro conjI)
  show "init_window (e\<lparr>glfw_init_result := r\<rparr>) s = init_window e s"
    by (rule init_window_glfw_init_result)
  show "main (e\<lparr>glfw_init_result := r\<rparr>) = main e"
    by (simp add: main_def init_window_glfw_init_result get_shader_program_glfw_init_result
        render_loop_glfw_init_result Let_def split: sum.splits prod.splits)
  show "\<exists>rest. trace (final_state (init_window e s)) =
        trace s
        @ [GlfwInit,
           GlfwWindowHint GLFW_CONTEXT_VERSION_MAJOR (Num 3),
           GlfwWindowHint GLFW_CONTEXT_VERSION_MINOR (Num 3),
           GlfwWindowHint GLFW_OPENGL_PROFILE GLFW_OPENGL_CORE_PROFILE]
        @ (if apple e then [GlfwWindowHint GLFW_OPENGL_FORWARD_COMPAT GL_TRUE] else [])
        @ [GlfwCreateWindow 800 600 ''OpenGL Template'']
        @ rest"
    by (cases "window_result e") (simp_all add: init_window_def final_state_def Let_def)
qed

end
